theory Spec2Isabelle
  imports Complex_Main
begin

section \<open>Chart dispatch of the e-mail report dashboard\<close>

text \<open>
  A shallow embedding of \<^verbatim>\<open>static/js/advanced-charts.js\<close> (the dispatcher
  \<^verbatim>\<open>initializeAdvancedCharts\<close>, \<^verbatim>\<open>showNoDataMessage\<close> and the five \<^verbatim>\<open>create...\<close>
  functions) and of the chart helpers of \<^verbatim>\<open>charts.js\<close> they call (\<^verbatim>\<open>createBarChart\<close>,
  \<^verbatim>\<open>createBubbleChart\<close>, \<^verbatim>\<open>createRadarChart\<close>, \<^verbatim>\<open>createHeatMapChart\<close>).

  Conventions of the embedding.
  \<^item> The payload is typed: a field that is absent, \<^verbatim>\<open>null\<close> or not an array is
    \<open>None\<close>, and a payload that is absent or \<^verbatim>\<open>null\<close> is \<open>None\<close>. Counts (\<^verbatim>\<open>sent\<close>,
    \<^verbatim>\<open>received\<close>, \<^verbatim>\<open>count\<close>, \<^verbatim>\<open>weight\<close>, the heat-map cells) are natural numbers, as
    in the demo generators of the source. The fields of a contact record may each be
    absent (\<^verbatim>\<open>undefined\<close>): the source guards them with \<^verbatim>\<open>|| 0\<close> and \<^verbatim>\<open>|| ''\<close>.
  \<^item> Computed numbers are exact reals: the rounding of IEEE doubles and the sign of zero
    are not modelled. Where JavaScript yields a non-finite number (division by zero,
    \<^verbatim>\<open>Math.max()\<close> of no arguments) the case is written out. No \<^verbatim>\<open>Math.floor\<close> is
    evaluated: the heat-map colours are kept as the branch and intensity they come from.
  \<^item> The page is a map from the five element ids to a slot: whether
    \<^verbatim>\<open>document.getElementById\<close> finds the element, and what its container shows; each
    element has a container of its own. Reading a property of \<^verbatim>\<open>null\<close> or
    \<^verbatim>\<open>undefined\<close> throws a \<^verbatim>\<open>TypeError\<close>.
  \<^item> The drawing library (\<^verbatim>\<open>new Chart\<close>) is an external primitive taken to succeed,
    and so is the spread of an array into \<^verbatim>\<open>Math.max\<close>, whatever its length. Of a chart
    configuration only the data-carrying part is kept: the style options and the tooltip
    and hover callbacks are left out.
  \<^item> A string is a list of characters; \<^verbatim>\<open>length\<close> and \<^verbatim>\<open>substring\<close> count list
    elements, which stand for the UTF-16 code units of a JavaScript string. The chart
    titles and element ids are constructors of their own types.
\<close>

subsection \<open>Payload\<close>

record hourly_record =
  hour :: string
  count :: nat

record contact_record =
  label :: "string option"
  sent :: "nat option"
  received :: "nat option"

record weighted_term =
  word_text :: string
  weight :: nat

record metric_dataset =
  ds_label :: string
  ds_data :: "real list"

record metrics =
  labels :: "string list option"
  datasets :: "metric_dataset list option"

record payload =
  hourly_activity :: "hourly_record list option"
  contact_data :: "contact_record list option"
  word_cloud :: "weighted_term list option"
  email_metrics :: "metrics option"
  activity_heatmap :: "nat list option"

subsection \<open>JavaScript numbers that may be non-finite\<close>

datatype jsnum = Fin real | PosInf | NegInf | NaN

text \<open>\<^verbatim>\<open>a / b\<close> for finite operands (a zero divisor is \<^verbatim>\<open>+0\<close>).\<close>

definition js_div :: "real \<Rightarrow> real \<Rightarrow> jsnum" where
  "js_div a b =
     (if b \<noteq> 0 then Fin (a / b)
      else if a = 0 then NaN
      else if 0 < a then PosInf else NegInf)"

fun js_mul :: "jsnum \<Rightarrow> jsnum \<Rightarrow> jsnum" where
  "js_mul (Fin a) (Fin b) = Fin (a * b)"
| "js_mul (Fin a) PosInf = (if a = 0 then NaN else if 0 < a then PosInf else NegInf)"
| "js_mul (Fin a) NegInf = (if a = 0 then NaN else if 0 < a then NegInf else PosInf)"
| "js_mul PosInf (Fin b) = (if b = 0 then NaN else if 0 < b then PosInf else NegInf)"
| "js_mul NegInf (Fin b) = (if b = 0 then NaN else if 0 < b then NegInf else PosInf)"
| "js_mul PosInf PosInf = PosInf"
| "js_mul PosInf NegInf = NegInf"
| "js_mul NegInf PosInf = NegInf"
| "js_mul NegInf NegInf = PosInf"
| "js_mul NaN _ = NaN"
| "js_mul _ NaN = NaN"

fun js_add :: "jsnum \<Rightarrow> jsnum \<Rightarrow> jsnum" where
  "js_add (Fin a) (Fin b) = Fin (a + b)"
| "js_add (Fin a) PosInf = PosInf"
| "js_add (Fin a) NegInf = NegInf"
| "js_add PosInf (Fin b) = PosInf"
| "js_add NegInf (Fin b) = NegInf"
| "js_add PosInf PosInf = PosInf"
| "js_add PosInf NegInf = NaN"
| "js_add NegInf PosInf = NaN"
| "js_add NegInf NegInf = NegInf"
| "js_add NaN _ = NaN"
| "js_add _ NaN = NaN"

text \<open>\<^verbatim>\<open>a > b\<close>: every comparison with \<^verbatim>\<open>NaN\<close> is false.\<close>

fun js_gt :: "jsnum \<Rightarrow> jsnum \<Rightarrow> bool" where
  "js_gt (Fin a) (Fin b) = (b < a)"
| "js_gt PosInf (Fin b) = True"
| "js_gt PosInf NegInf = True"
| "js_gt (Fin a) NegInf = True"
| "js_gt _ _ = False"

subsection \<open>What a slot shows\<close>

datatype slot_id =
  hourlyActivityChart | contactBubbleChart | subjectWordCloudContainer
  | emailMetricsChart | activityHeatmapChart

text \<open>The chart titles passed to \<^verbatim>\<open>showNoDataMessage\<close>.\<close>

datatype chart_title =
  AtividadePorHora | PrincipaisContatos | TermosMaisFrequentes
  | MetricasDeComunicacao | MapaDeAtividade

record bubble_point =
  pt_x :: nat
  pt_y :: nat
  pt_r :: real
  pt_label :: string

record radar_dataset =
  rd_label :: string
  rd_data :: "real list"
  rd_rgb :: string

text \<open>
  What the colour callback of the heat map returns: the fixed neutral colour
  \<^verbatim>\<open>rgba(240, 240, 240, 0.5)\<close>, or the string of one of its two gradient branches, given
  here by the branch and the intensity it is computed from. The channel values of a
  branch are \<^verbatim>\<open>Math.floor\<close> of double expressions in the intensity; the floor of a double
  can differ by one from the floor of the exact value (for value 7 and maximum 12 the code
  yields green 150 where exact arithmetic gives 151), so the channels are not evaluated
  in this embedding.
\<close>

datatype colour = ZeroColour | BlueToYellow real | YellowToRed real

record heat_cell =
  cell_value :: nat
  cell_colour :: colour

record span =
  span_text :: string
  font_size :: jsnum
  bold :: bool
  span_color :: string

datatype chart =
  Bar "string list" "nat list"
  | StackedBar "string list" "nat list" "nat list"
  | Bubble "bubble_point list"
  | Radar "string list" "radar_dataset list"
  | HeatMap "heat_cell list list"

text \<open>
  \<open>Blank\<close>: nothing rendered yet. \<open>Placeholder\<close>: the \<^verbatim>\<open>chart-placeholder\<close> block of
  \<^verbatim>\<open>showNoDataMessage\<close>. \<open>Notice\<close>: the \<^verbatim>\<open>Dados insuficientes\<close> block the
  \<^verbatim>\<open>create...\<close> functions write themselves. \<open>Drawn\<close>: a chart on the canvas.
  \<open>WordCloud\<close>: the spans of the word cloud.
\<close>

datatype content =
  Blank | Placeholder chart_title | Notice | Drawn chart | WordCloud "span list"

record slot =
  present :: bool
  shown :: content

datatype js_error = TypeError

datatype log_entry = ErrorNoData | LogInit | ErrorCaught js_error

record page =
  slots :: "slot_id \<Rightarrow> slot"
  console :: "log_entry list"

text \<open>A statement either completes or throws; the page as written so far goes with both.\<close>

datatype outcome = Normal page | Throw js_error page

fun and_then :: "outcome \<Rightarrow> (page \<Rightarrow> outcome) \<Rightarrow> outcome" where
  "and_then (Normal s) f = f s"
| "and_then (Throw e s) f = Throw e s"

definition set_slot :: "slot_id \<Rightarrow> slot \<Rightarrow> page \<Rightarrow> page" where
  "set_slot sid sl s = s\<lparr>slots := (slots s)(sid := sl)\<rparr>"

definition console_write :: "log_entry \<Rightarrow> page \<Rightarrow> page" where
  "console_write e s = s\<lparr>console := console s @ [e]\<rparr>"

text \<open>
  \<^verbatim>\<open>showNoDataMessage\<close>: returns when the element is not found; otherwise replaces the
  content of the element's parent, which removes the element itself from the document.
\<close>

definition showNoDataMessage :: "slot_id \<Rightarrow> chart_title \<Rightarrow> page \<Rightarrow> page" where
  "showNoDataMessage elementId chartTitle s =
     (if \<not> present (slots s elementId) then s
      else set_slot elementId \<lparr>present = False, shown = Placeholder chartTitle\<rparr> s)"

text \<open>
  \<^verbatim>\<open>document.getElementById(id).parentNode; container.innerHTML = '<div ...>'\<close>:
  throws on a missing element, otherwise replaces the parent's content.
\<close>

definition notice_in_parent :: "slot_id \<Rightarrow> page \<Rightarrow> outcome" where
  "notice_in_parent sid s =
     (if \<not> present (slots s sid) then Throw TypeError s
      else Normal (set_slot sid \<lparr>present = False, shown = Notice\<rparr> s))"

text \<open>
  \<^verbatim>\<open>container.innerHTML = '<div ...>'\<close> on the element itself (the word-cloud
  container): throws on a missing element; the element stays in the document.
\<close>

definition notice_in_self :: "slot_id \<Rightarrow> page \<Rightarrow> outcome" where
  "notice_in_self sid s =
     (if \<not> present (slots s sid) then Throw TypeError s
      else Normal (set_slot sid \<lparr>present = True, shown = Notice\<rparr> s))"

text \<open>
  \<^verbatim>\<open>new Chart(ctx, config)\<close> on the canvas of a slot. The callers obtain \<^verbatim>\<open>ctx\<close>
  by \<^verbatim>\<open>document.getElementById(id).getContext('2d')\<close> first, which throws on a
  missing element; that check is written at each call site.
\<close>

definition draw :: "slot_id \<Rightarrow> chart \<Rightarrow> page \<Rightarrow> page" where
  "draw sid c s = set_slot sid \<lparr>present = True, shown = Drawn c\<rparr> s"

subsection \<open>Truthiness helpers\<close>

text \<open>\<^verbatim>\<open>v || 0\<close> on a count that may be \<^verbatim>\<open>undefined\<close>.\<close>

fun js_or0 :: "nat option \<Rightarrow> nat" where
  "js_or0 None = 0"
| "js_or0 (Some n) = (if n = 0 then 0 else n)"

text \<open>\<^verbatim>\<open>v > 0\<close> on a count that may be \<^verbatim>\<open>undefined\<close>.\<close>

fun js_gt0 :: "nat option \<Rightarrow> bool" where
  "js_gt0 None = False"
| "js_gt0 (Some n) = (0 < n)"

text \<open>\<^verbatim>\<open>xs[i]\<close>: \<^verbatim>\<open>undefined\<close> out of range.\<close>

definition js_index :: "'a list \<Rightarrow> nat \<Rightarrow> 'a option" where
  "js_index xs i = (if i < length xs then Some (xs ! i) else None)"

subsection \<open>Hourly activity: bars\<close>

definition createBarChart :: "string list \<Rightarrow> nat list \<Rightarrow> chart" where
  "createBarChart lbls dat = Bar lbls dat"

definition createHourlyActivityChart :: "hourly_record list option \<Rightarrow> page \<Rightarrow> outcome" where
  "createHourlyActivityChart hourlyData s =
     (case hourlyData of
        None \<Rightarrow> Normal s
      | Some [] \<Rightarrow> Normal s
      | Some (item # rest) \<Rightarrow>
          if \<not> present (slots s hourlyActivityChart) then Throw TypeError s
          else
            let hours = map hour (item # rest);
                counts = map count (item # rest)
            in Normal (draw hourlyActivityChart (createBarChart hours counts) s))"

subsection \<open>Contacts: bubbles, or stacked bars\<close>

definition createBubbleChart :: "contact_record list \<Rightarrow> chart" where
  "createBubbleChart dat =
     (let maxContacts = 5;
          limitedData = take maxContacts dat;
          bubbleData = map (\<lambda>item.
            \<lparr>pt_x = js_or0 (sent item),
             pt_y = js_or0 (received item),
             pt_r = max 5 (min 15 (sqrt (real (js_or0 (sent item) + js_or0 (received item))) * 1.5)),
             pt_label = (case label item of None \<Rightarrow> [] | Some l \<Rightarrow> l)\<rparr>) limitedData
      in Bubble bubbleData)"

text \<open>The label callback of the fallback: \<^verbatim>\<open>item.label.length\<close> throws on a missing label.\<close>

definition truncate_label :: "contact_record \<Rightarrow> js_error + string" where
  "truncate_label item =
     (case label item of
        None \<Rightarrow> Inl TypeError
      | Some l \<Rightarrow> if length l > 15 then Inr (take 12 l @ ''...'') else Inr l)"

text \<open>\<^verbatim>\<open>Array.prototype.map\<close> with a callback that may throw.\<close>

fun map_throw :: "('a \<Rightarrow> js_error + 'b) \<Rightarrow> 'a list \<Rightarrow> js_error + 'b list" where
  "map_throw f [] = Inr []"
| "map_throw f (x # xs) =
     (case f x of
        Inl e \<Rightarrow> Inl e
      | Inr y \<Rightarrow> (case map_throw f xs of Inl e \<Rightarrow> Inl e | Inr ys \<Rightarrow> Inr (y # ys)))"

text \<open>\<^verbatim>\<open>contactData.some(item => item.sent > 0 && item.received > 0)\<close>.\<close>

definition hasEnoughData :: "contact_record list \<Rightarrow> bool" where
  "hasEnoughData contactData =
     list_ex (\<lambda>item. js_gt0 (sent item) \<and> js_gt0 (received item)) contactData"

definition createContactBubbleChart :: "contact_record list option \<Rightarrow> page \<Rightarrow> outcome" where
  "createContactBubbleChart contactData s =
     (case contactData of
        None \<Rightarrow> notice_in_parent contactBubbleChart s
      | Some [] \<Rightarrow> notice_in_parent contactBubbleChart s
      | Some (c # cs) \<Rightarrow>
          if \<not> hasEnoughData (c # cs) then
            if \<not> present (slots s contactBubbleChart) then Throw TypeError s
            else
              let maxContacts = 3 in
              (case map_throw truncate_label (take maxContacts (c # cs)) of
                 Inl e \<Rightarrow> Throw e s
               | Inr lbls \<Rightarrow>
                   let sentData = map (\<lambda>item. js_or0 (sent item)) (take maxContacts (c # cs));
                       receivedData = map (\<lambda>item. js_or0 (received item)) (take maxContacts (c # cs))
                   in Normal (draw contactBubbleChart (StackedBar lbls sentData receivedData) s))
          else
            if \<not> present (slots s contactBubbleChart) then Throw TypeError s
            else
              let maxBubbles = 8;
                  limitedData = take maxBubbles (c # cs)
              in Normal (draw contactBubbleChart (createBubbleChart limitedData) s))"

subsection \<open>Word cloud\<close>

definition colors :: "string list" where
  "colors = [''#4f46e5'', ''#10b981'', ''#f59e0b'', ''#ef4444'', ''#3b82f6'',
             ''#8b5cf6'', ''#ec4899'', ''#14b8a6'', ''#f97316'', ''#06b6d4'']"

definition word_span :: "nat \<Rightarrow> nat \<Rightarrow> weighted_term \<Rightarrow> span" where
  "word_span maxWeight index item =
     (let fontSizeMin = 14;
          fontSizeMax = 40;
          weightRatio = js_div (real (weight item)) (real maxWeight);
          fontSize = js_add (Fin fontSizeMin) (js_mul (Fin (fontSizeMax - fontSizeMin)) weightRatio)
      in \<lparr>span_text = word_text item,
          font_size = fontSize,
          bold = js_gt weightRatio (Fin 0.6),
          span_color = colors ! (index mod length colors)\<rparr>)"

definition createWordCloudVisualization :: "weighted_term list option \<Rightarrow> page \<Rightarrow> outcome" where
  "createWordCloudVisualization wordCloudData s =
     (case wordCloudData of
        None \<Rightarrow> notice_in_self subjectWordCloudContainer s
      | Some [] \<Rightarrow> notice_in_self subjectWordCloudContainer s
      | Some (w # ws) \<Rightarrow>
          if \<not> present (slots s subjectWordCloudContainer) then Throw TypeError s
          else
            let cleared = set_slot subjectWordCloudContainer \<lparr>present = True, shown = WordCloud []\<rparr> s;
                displayWords = take (min 20 (length (w # ws))) (w # ws)
            in (case displayWords of
                  [] \<Rightarrow> Throw TypeError cleared
                | first # _ \<Rightarrow>
                    let maxWeight = weight first;
                        spans = map (\<lambda>(index, item). word_span maxWeight index item)
                                  (enumerate 0 displayWords)
                    in Normal (set_slot subjectWordCloudContainer
                                 \<lparr>present = True, shown = WordCloud spans\<rparr> cleared)))"

subsection \<open>E-mail metrics: radar\<close>

definition createRadarChart :: "string list \<Rightarrow> metric_dataset list \<Rightarrow> chart" where
  "createRadarChart lbls dsets =
     Radar lbls
       (map (\<lambda>(index, dataset).
               \<lparr>rd_label = ds_label dataset, rd_data = ds_data dataset,
                rd_rgb = (if index = (0::nat) then ''54, 162, 235'' else ''255, 99, 132'')\<rparr>)
          (enumerate 0 dsets))"

definition createEmailMetricsRadarChart :: "metrics option \<Rightarrow> page \<Rightarrow> outcome" where
  "createEmailMetricsRadarChart metricsData s =
     (case metricsData of
        None \<Rightarrow> notice_in_parent emailMetricsChart s
      | Some m \<Rightarrow>
          (case (labels m, datasets m) of
             (Some lbls, Some dsets) \<Rightarrow>
               if \<not> present (slots s emailMetricsChart) then Throw TypeError s
               else Normal (draw emailMetricsChart (createRadarChart lbls dsets) s)
           | _ \<Rightarrow> notice_in_parent emailMetricsChart s))"

subsection \<open>Activity heat map\<close>

text \<open>\<^verbatim>\<open>Math.max(...data)\<close>; \<open>None\<close> is the \<^verbatim>\<open>-Infinity\<close> of an empty argument list.\<close>

fun math_max :: "nat list \<Rightarrow> nat option" where
  "math_max [] = None"
| "math_max (v # vs) = Some (fold max vs v)"

text \<open>
  \<^verbatim>\<open>Math.min(1, value / (maxValue * 0.7))\<close> for a cell value other than 0: a finite
  value over \<^verbatim>\<open>-Infinity\<close> is a zero, and a positive value over 0 is \<^verbatim>\<open>Infinity\<close>,
  which the minimum caps at 1.
\<close>

definition intensity_of :: "nat option \<Rightarrow> nat \<Rightarrow> real" where
  "intensity_of maxValue v =
     (case maxValue of
        None \<Rightarrow> 0
      | Some m \<Rightarrow> if m = 0 then 1 else min 1 (real v / (real m * 0.7)))"

definition backgroundColor :: "nat option \<Rightarrow> nat \<Rightarrow> colour" where
  "backgroundColor maxValue v =
     (if v = 0 then ZeroColour
      else
        let intensity = intensity_of maxValue v
        in if intensity < 0.5 then BlueToYellow intensity
           else YellowToRed intensity)"

definition createHeatMapChart :: "nat list \<Rightarrow> chart" where
  "createHeatMapChart dat =
     (let heatmapData = map (\<lambda>d. map (\<lambda>h. js_or0 (js_index dat (d * 24 + h))) [0..<24]) [0..<7];
          maxValue = math_max dat;
          dsets = map (\<lambda>dayData.
                    map (\<lambda>v. \<lparr>cell_value = v, cell_colour = backgroundColor maxValue v\<rparr>) dayData)
                  heatmapData
      in HeatMap dsets)"

text \<open>\<^verbatim>\<open>heatmapData.some(value => value > 0)\<close>.\<close>

definition hasData :: "nat list \<Rightarrow> bool" where
  "hasData heatmapData = list_ex (\<lambda>v. v > 0) heatmapData"

definition createActivityHeatmap :: "nat list option \<Rightarrow> page \<Rightarrow> outcome" where
  "createActivityHeatmap heatmapData s =
     (case heatmapData of
        None \<Rightarrow> notice_in_parent activityHeatmapChart s
      | Some [] \<Rightarrow> notice_in_parent activityHeatmapChart s
      | Some (v # vs) \<Rightarrow>
          if \<not> hasData (v # vs) then notice_in_parent activityHeatmapChart s
          else if \<not> present (slots s activityHeatmapChart) then Throw TypeError s
          else Normal (draw activityHeatmapChart (createHeatMapChart (v # vs)) s))"

subsection \<open>The dispatcher\<close>

definition hourly_slot :: "payload \<Rightarrow> page \<Rightarrow> outcome" where
  "hourly_slot d s =
     (case hourly_activity d of
        Some xs \<Rightarrow> createHourlyActivityChart (Some xs) s
      | None \<Rightarrow> Normal (showNoDataMessage hourlyActivityChart AtividadePorHora s))"

definition contact_slot :: "payload \<Rightarrow> page \<Rightarrow> outcome" where
  "contact_slot d s =
     (case contact_data d of
        Some (c # cs) \<Rightarrow> createContactBubbleChart (Some (c # cs)) s
      | _ \<Rightarrow> Normal (showNoDataMessage contactBubbleChart PrincipaisContatos s))"

definition word_cloud_slot :: "payload \<Rightarrow> page \<Rightarrow> outcome" where
  "word_cloud_slot d s =
     (case word_cloud d of
        Some (w # ws) \<Rightarrow> createWordCloudVisualization (Some (w # ws)) s
      | _ \<Rightarrow> Normal (showNoDataMessage subjectWordCloudContainer TermosMaisFrequentes s))"

definition metrics_slot :: "payload \<Rightarrow> page \<Rightarrow> outcome" where
  "metrics_slot d s =
     (case email_metrics d of
        Some m \<Rightarrow>
          (case (labels m, datasets m) of
             (Some _, Some _) \<Rightarrow> createEmailMetricsRadarChart (Some m) s
           | _ \<Rightarrow> Normal (showNoDataMessage emailMetricsChart MetricasDeComunicacao s))
      | None \<Rightarrow> Normal (showNoDataMessage emailMetricsChart MetricasDeComunicacao s))"

definition heatmap_slot :: "payload \<Rightarrow> page \<Rightarrow> outcome" where
  "heatmap_slot d s =
     (case activity_heatmap d of
        Some (v # vs) \<Rightarrow> createActivityHeatmap (Some (v # vs)) s
      | _ \<Rightarrow> Normal (showNoDataMessage activityHeatmapChart MapaDeAtividade s))"

text \<open>The body of the \<^verbatim>\<open>try\<close> block: the five slots in order.\<close>

definition try_body :: "payload \<Rightarrow> page \<Rightarrow> outcome" where
  "try_body d s =
     and_then (and_then (and_then (and_then (hourly_slot d s)
       (contact_slot d)) (word_cloud_slot d)) (metrics_slot d)) (heatmap_slot d)"

definition initializeAdvancedCharts :: "payload option \<Rightarrow> page \<Rightarrow> outcome" where
  "initializeAdvancedCharts dat s =
     (case dat of
        None \<Rightarrow>
          Normal
            (showNoDataMessage activityHeatmapChart MapaDeAtividade
              (showNoDataMessage emailMetricsChart MetricasDeComunicacao
                (showNoDataMessage subjectWordCloudContainer TermosMaisFrequentes
                  (showNoDataMessage contactBubbleChart PrincipaisContatos
                    (showNoDataMessage hourlyActivityChart AtividadePorHora
                      (console_write ErrorNoData s))))))
      | Some d \<Rightarrow>
          (case try_body d (console_write LogInit s) of
             Normal s' \<Rightarrow> Normal s'
           | Throw e s' \<Rightarrow> Normal (console_write (ErrorCaught e) s')))"

subsection \<open>Observers\<close>

fun page_of :: "outcome \<Rightarrow> page" where
  "page_of (Normal s) = s"
| "page_of (Throw e s) = s"

fun throws :: "outcome \<Rightarrow> bool" where
  "throws (Throw _ _) = True"
| "throws (Normal _) = False"

fun chart_points :: "content \<Rightarrow> bubble_point list" where
  "chart_points (Drawn (Bubble pts)) = pts"
| "chart_points _ = []"

fun points_of :: "chart \<Rightarrow> bubble_point list" where
  "points_of (Bubble pts) = pts"
| "points_of _ = []"

fun chart_rows :: "chart \<Rightarrow> heat_cell list list" where
  "chart_rows (HeatMap rows) = rows"
| "chart_rows _ = []"

fun cloud_spans :: "content \<Rightarrow> span list" where
  "cloud_spans (WordCloud spans) = spans"
| "cloud_spans _ = []"

text \<open>A slot shows a no-data block in place of a chart.\<close>

fun no_data_shown :: "content \<Rightarrow> bool" where
  "no_data_shown (Placeholder _) = True"
| "no_data_shown Notice = True"
| "no_data_shown _ = False"

subsection \<open>Notions used to state the properties\<close>

text \<open>The title the dispatcher passes to \<^verbatim>\<open>showNoDataMessage\<close> for each element.\<close>

fun slot_title :: "slot_id \<Rightarrow> chart_title" where
  "slot_title hourlyActivityChart = AtividadePorHora"
| "slot_title contactBubbleChart = PrincipaisContatos"
| "slot_title subjectWordCloudContainer = TermosMaisFrequentes"
| "slot_title emailMetricsChart = MetricasDeComunicacao"
| "slot_title activityHeatmapChart = MapaDeAtividade"

text \<open>
  The five statements of the \<^verbatim>\<open>try\<close> block by the element they render, their order,
  and the block as a run through that order.
\<close>

fun slot_step :: "slot_id \<Rightarrow> payload \<Rightarrow> page \<Rightarrow> outcome" where
  "slot_step hourlyActivityChart = hourly_slot"
| "slot_step contactBubbleChart = contact_slot"
| "slot_step subjectWordCloudContainer = word_cloud_slot"
| "slot_step emailMetricsChart = metrics_slot"
| "slot_step activityHeatmapChart = heatmap_slot"

definition slot_sequence :: "slot_id list" where
  "slot_sequence = [hourlyActivityChart, contactBubbleChart, subjectWordCloudContainer,
                    emailMetricsChart, activityHeatmapChart]"

fun run_steps :: "slot_id list \<Rightarrow> payload \<Rightarrow> page \<Rightarrow> outcome" where
  "run_steps [] d s = Normal s"
| "run_steps (Y # Ys) d s = and_then (slot_step Y d s) (run_steps Ys d)"

text \<open>The clamp of the specification: \<open>v\<close> brought into \<open>[lo, hi]\<close>.\<close>

definition spec_clamp :: "real \<Rightarrow> real \<Rightarrow> real \<Rightarrow> real" where
  "spec_clamp v lo hi = (if v < lo then lo else if hi < v then hi else v)"

text \<open>
  The specification's condition for an empty heat map: absent, of zero length, or every
  value zero.
\<close>

fun spec_heatmap_empty :: "nat list option \<Rightarrow> bool" where
  "spec_heatmap_empty None = True"
| "spec_heatmap_empty (Some vs) = (vs = [] \<or> list_all (\<lambda>v. v = 0) vs)"

text \<open>The intensity of the specification, \<open>min 1 (value / (max * 0.7))\<close>.\<close>

definition spec_intensity :: "nat \<Rightarrow> nat \<Rightarrow> real" where
  "spec_intensity m v = min 1 (real v / (real m * 0.7))"

text \<open>
  The red, green and blue channel expressions of the yellow-to-red branch of the colour
  callback (the arguments of \<^verbatim>\<open>Math.floor\<close> for red and green, the literal 64 for blue),
  as exact reals.
\<close>

definition yellow_to_red_channels :: "real \<Rightarrow> real \<times> real \<times> real" where
  "yellow_to_red_channels t = (255, 255 - (255 - 99) * ((t - 0.5) * 2), 64)"

subsection \<open>Sample inputs\<close>

text \<open>A page holding all five elements, nothing rendered, an empty console.\<close>

definition blank_page :: page where
  "blank_page = \<lparr>slots = (\<lambda>_. \<lparr>present = True, shown = Blank\<rparr>), console = []\<rparr>"

definition no_payload :: payload where
  "no_payload = \<lparr>hourly_activity = None, contact_data = None, word_cloud = None,
     email_metrics = None, activity_heatmap = None\<rparr>"

definition contact :: "string \<Rightarrow> nat \<Rightarrow> nat \<Rightarrow> contact_record" where
  "contact l a b = \<lparr>label = Some l, sent = Some a, received = Some b\<rparr>"

definition term_of :: "string \<Rightarrow> nat \<Rightarrow> weighted_term" where
  "term_of t w = \<lparr>word_text = t, weight = w\<rparr>"

text \<open>Six contacts, each with mail sent and received.\<close>

definition six_contacts :: "contact_record list" where
  "six_contacts = [contact ''a'' 1 1, contact ''b'' 2 1, contact ''c'' 3 1,
                   contact ''d'' 4 1, contact ''e'' 5 1, contact ''f'' 6 1]"

text \<open>
  Two contacts, neither with both sent and received mail; the first label has 22
  characters, the second exactly 15, and the second record has no \<^verbatim>\<open>received\<close> field.
\<close>

definition two_unpaired :: "contact_record list" where
  "two_unpaired = [contact ''newsletter@example.com'' 0 5,
                   \<lparr>label = Some ''bob@example.com'', sent = Some 3, received = None\<rparr>]"

text \<open>
  A payload whose contact record has no label: \<^verbatim>\<open>item.label.length\<close> throws in the
  stacked-bar fallback. Its hourly, word-cloud and heat-map data are renderable.
\<close>

definition unlabelled_payload :: payload where
  "unlabelled_payload =
     \<lparr>hourly_activity = Some [\<lparr>hour = ''09:00'', count = 3\<rparr>],
      contact_data = Some [\<lparr>label = None, sent = Some 0, received = Some 5\<rparr>],
      word_cloud = Some [term_of ''a'' 40],
      email_metrics = None,
      activity_heatmap = Some [0, 4, 0]\<rparr>"

section \<open>Properties\<close>

subsection \<open>Contacts\<close>

lemma createBubbleChart_is_Bubble: "\<exists>pts. createBubbleChart dat = Bubble pts"
  by (simp add: createBubbleChart_def Let_def)

lemma createBubbleChart_length:
  "createBubbleChart dat = Bubble pts \<Longrightarrow> length pts = min (length dat) 5"
  by (auto simp: createBubbleChart_def Let_def)

lemma createBubbleChart_points:
  "createBubbleChart dat = Bubble pts \<Longrightarrow> i < length pts \<Longrightarrow>
     i < length dat \<and> i < 5 \<and>
     pts ! i = \<lparr>pt_x = js_or0 (sent (dat ! i)), pt_y = js_or0 (received (dat ! i)),
       pt_r = max 5 (min 15 (sqrt (real (js_or0 (sent (dat ! i)) + js_or0 (received (dat ! i)))) * 1.5)),
       pt_label = (case label (dat ! i) of None \<Rightarrow> [] | Some l \<Rightarrow> l)\<rparr>"
  by (auto simp: createBubbleChart_def Let_def)

lemma contact_slot_primary:
  "contact_data d = Some cs \<Longrightarrow> hasEnoughData cs \<Longrightarrow> present (slots s contactBubbleChart) \<Longrightarrow>
     contact_slot d s = Normal (draw contactBubbleChart (createBubbleChart (take 8 cs)) s)"
proof (cases cs)
  case Nil
  assume "hasEnoughData cs"
  with Nil show ?thesis by (simp add: hasEnoughData_def)
next
  case (Cons c cs')
  assume "contact_data d = Some cs" "hasEnoughData cs" "present (slots s contactBubbleChart)"
  with Cons show ?thesis
    by (simp add: contact_slot_def createContactBubbleChart_def)
qed

lemma six_paired: "hasEnoughData six_contacts"
  by (simp add: hasEnoughData_def six_contacts_def contact_def)

text \<open>
  C1, as the code has it. When some record has \<^verbatim>\<open>sent > 0\<close> and \<^verbatim>\<open>received > 0\<close> and the
  canvas is on the page, the contact slot draws a bubble chart. The caller keeps the first
  8 records, and \<^verbatim>\<open>createBubbleChart\<close> then keeps the first 5 of those
  (\<^verbatim>\<open>maxContacts = 5\<close>): the chart has exactly \<open>min n 5\<close> points for \<open>n\<close> records, the
  \<open>i\<close>-th point encoding the \<open>i\<close>-th record.
\<close>

theorem primary_bubbles_first_five:
  assumes "contact_data d = Some cs" and "hasEnoughData cs"
    and "present (slots s contactBubbleChart)"
  shows "\<exists>pts. contact_slot d s = Normal (draw contactBubbleChart (Bubble pts) s)
           \<and> length pts = min (length cs) 5
           \<and> (\<forall>i<length pts.
                 pt_x (pts ! i) = js_or0 (sent (cs ! i))
               \<and> pt_y (pts ! i) = js_or0 (received (cs ! i))
               \<and> pt_label (pts ! i) = (case label (cs ! i) of None \<Rightarrow> [] | Some l \<Rightarrow> l))"
proof -
  obtain pts where pts: "createBubbleChart (take 8 cs) = Bubble pts"
    using createBubbleChart_is_Bubble by blast
  have len: "length pts = min (length cs) 5"
    using createBubbleChart_length [OF pts] by simp
  have "pt_x (pts ! i) = js_or0 (sent (cs ! i))
      \<and> pt_y (pts ! i) = js_or0 (received (cs ! i))
      \<and> pt_label (pts ! i) = (case label (cs ! i) of None \<Rightarrow> [] | Some l \<Rightarrow> l)"
    if "i < length pts" for i
    using createBubbleChart_points [OF pts that] that len by simp
  with len contact_slot_primary [OF assms] pts show ?thesis by auto
qed

text \<open>Six paired contacts on a blank page: five points are drawn.\<close>

theorem primary_bubbles_first_five_witness:
  "length (chart_points (shown (slots (page_of
        (contact_slot (no_payload\<lparr>contact_data := Some six_contacts\<rparr>) blank_page))
        contactBubbleChart))) = 5"
proof -
  have h1: "contact_data (no_payload\<lparr>contact_data := Some six_contacts\<rparr>) = Some six_contacts"
    by simp
  have h3: "present (slots blank_page contactBubbleChart)"
    by (simp add: blank_page_def)
  have l: "length six_contacts = 6" by (simp add: six_contacts_def)
  from primary_bubbles_first_five [OF h1 six_paired h3] l show ?thesis
    by (auto simp: draw_def set_slot_def)
qed

text \<open>
  C1 as stated (exactly \<open>min n 8\<close> points) fails for six paired contacts: the chart drawn
  has five points, not six.
\<close>

theorem primary_bubbles_eight_counterexample:
  "hasEnoughData six_contacts
   \<and> length (chart_points (shown (slots (page_of
        (contact_slot (no_payload\<lparr>contact_data := Some six_contacts\<rparr>) blank_page))
        contactBubbleChart))) \<noteq> min (length six_contacts) 8"
proof -
  have h1: "contact_data (no_payload\<lparr>contact_data := Some six_contacts\<rparr>) = Some six_contacts"
    by simp
  have h3: "present (slots blank_page contactBubbleChart)"
    by (simp add: blank_page_def)
  obtain pts where pts: "createBubbleChart (take 8 six_contacts) = Bubble pts"
    using createBubbleChart_is_Bubble by blast
  have "length pts = 5"
    using createBubbleChart_length [OF pts] by (simp add: six_contacts_def)
  with contact_slot_primary [OF h1 six_paired h3] pts six_paired show ?thesis
    by (simp add: draw_def set_slot_def six_contacts_def)
qed

text \<open>
  C5. Each of the first five records is encoded as a bubble, and for a record whose
  \<^verbatim>\<open>sent\<close> and \<^verbatim>\<open>received\<close> are the counts \<open>a\<close> and \<open>b\<close> the bubble has \<open>x = a\<close>,
  \<open>y = b\<close> and the radius \<open>sqrt (a + b) * 1.5\<close> clamped into \<open>[5, 15]\<close>; the radius lies
  between 5 and 15, and is 5 for \<open>a = b = 0\<close>.
\<close>

theorem bubble_radius_clamped:
  assumes "i < length dat" and "i < 5"
    and "sent (dat ! i) = Some a" and "received (dat ! i) = Some b"
  shows "\<exists>pts. createBubbleChart dat = Bubble pts
           \<and> length pts = min (length dat) 5
           \<and> pt_x (pts ! i) = a \<and> pt_y (pts ! i) = b
           \<and> pt_r (pts ! i) = spec_clamp (sqrt (real (a + b)) * 1.5) 5 15
           \<and> 5 \<le> pt_r (pts ! i) \<and> pt_r (pts ! i) \<le> 15
           \<and> (a = 0 \<and> b = 0 \<longrightarrow> pt_r (pts ! i) = 5)"
proof -
  obtain pts where pts: "createBubbleChart dat = Bubble pts"
    using createBubbleChart_is_Bubble by blast
  have len: "length pts = min (length dat) 5"
    by (rule createBubbleChart_length [OF pts])
  with assms(1,2) have i: "i < length pts" by simp
  from createBubbleChart_points [OF pts i] assms(3,4)
  have "pt_x (pts ! i) = a \<and> pt_y (pts ! i) = b
      \<and> pt_r (pts ! i) = spec_clamp (sqrt (real (a + b)) * 1.5) 5 15
      \<and> 5 \<le> pt_r (pts ! i) \<and> pt_r (pts ! i) \<le> 15
      \<and> (a = 0 \<and> b = 0 \<longrightarrow> pt_r (pts ! i) = 5)"
    by (auto simp: spec_clamp_def)
  with pts len show ?thesis by blast
qed

text \<open>
  A record with 8 sent and 8 received has radius \<open>sqrt 16 * 1.5 = 6\<close>; a record with
  nothing sent or received has radius 5.
\<close>

theorem bubble_radius_clamped_witness:
  "length (points_of (createBubbleChart [contact ''ana'' 8 8, contact ''zed'' 0 0])) = 2
   \<and> pt_r (points_of (createBubbleChart [contact ''ana'' 8 8, contact ''zed'' 0 0]) ! 0) = 6
   \<and> pt_r (points_of (createBubbleChart [contact ''ana'' 8 8, contact ''zed'' 0 0]) ! 1) = 5"
proof -
  let ?dat = "[contact ''ana'' 8 8, contact ''zed'' 0 0]"
  have sq: "sqrt 16 = 4" using real_sqrt_abs [of 4] by simp
  have l0: "0 < length ?dat" and l1: "1 < length ?dat" and f0: "(0::nat) < 5" and f1: "(1::nat) < 5"
    by simp_all
  have s0: "sent (?dat ! 0) = Some 8" and r0: "received (?dat ! 0) = Some 8"
    and s1: "sent (?dat ! 1) = Some 0" and r1: "received (?dat ! 1) = Some 0"
    by (simp_all add: contact_def)
  from bubble_radius_clamped [OF l0 f0 s0 r0] obtain pts where
    p: "createBubbleChart ?dat = Bubble pts" "length pts = min (length ?dat) 5"
      "pt_r (pts ! 0) = spec_clamp (sqrt (real (8 + 8)) * 1.5) 5 15"
    by blast
  from bubble_radius_clamped [OF l1 f1 s1 r1] obtain pts' where
    p': "createBubbleChart ?dat = Bubble pts'" "0 = 0 \<and> 0 = 0 \<longrightarrow> pt_r (pts' ! 1) = 5"
    by blast
  from p(1) p'(1) have same: "pts' = pts" by simp
  have "spec_clamp (sqrt (real (8 + 8)) * 1.5) 5 15 = 6"
    by (simp add: spec_clamp_def sq)
  with p p' same show ?thesis by simp
qed

lemma map_throw_all_Inr:
  "\<forall>x\<in>set xs. \<exists>y. f x = Inr y \<Longrightarrow>
     \<exists>ys. map_throw f xs = Inr ys \<and> length ys = length xs \<and> (\<forall>i<length xs. f (xs ! i) = Inr (ys ! i))"
proof (induction xs)
  case Nil
  then show ?case by simp
next
  case (Cons x xs)
  then obtain y where y: "f x = Inr y" by auto
  from Cons obtain ys where ys: "map_throw f xs = Inr ys" "length ys = length xs"
    "\<forall>i<length xs. f (xs ! i) = Inr (ys ! i)" by auto
  have "\<forall>i<length (x # xs). f ((x # xs) ! i) = Inr ((y # ys) ! i)"
    using y ys(3) by (auto simp: nth_Cons split: nat.splits)
  with y ys show ?case by simp
qed

lemma truncate_label_Some:
  "label item = Some l \<Longrightarrow>
     truncate_label item = Inr (if length l > 15 then take 12 l @ ''...'' else l)"
  by (simp add: truncate_label_def)

lemma contact_slot_fallback:
  assumes "contact_data d = Some cs" and "cs \<noteq> []" and "\<not> hasEnoughData cs"
    and "present (slots s contactBubbleChart)"
    and "map_throw truncate_label (take 3 cs) = Inr lbls"
  shows "contact_slot d s = Normal (draw contactBubbleChart
           (StackedBar lbls (map (\<lambda>item. js_or0 (sent item)) (take 3 cs))
                            (map (\<lambda>item. js_or0 (received item)) (take 3 cs))) s)"
proof (cases cs)
  case Nil
  with assms(2) show ?thesis by simp
next
  case (Cons c cs')
  with assms show ?thesis
    by (simp add: contact_slot_def createContactBubbleChart_def)
qed

text \<open>
  C9. A non-empty contact list in which no record has \<^verbatim>\<open>sent > 0\<close> and
  \<^verbatim>\<open>received > 0\<close>, whose first three records carry a label, is drawn as the stacked-bar
  fallback from at most its first 3 records: a label longer than 15 characters becomes
  its first 12 characters followed by \<open>...\<close>, a label of at most 15 characters is kept,
  and the \<^verbatim>\<open>sent\<close> and \<^verbatim>\<open>received\<close> series hold, at each position, the counts of the
  record the label comes from.
\<close>

theorem fallback_stacked_bars:
  assumes "contact_data d = Some cs" and "cs \<noteq> []" and "\<not> hasEnoughData cs"
    and "present (slots s contactBubbleChart)"
    and "\<forall>i<min 3 (length cs). label (cs ! i) = Some (ls i)"
  shows "\<exists>lbls sentData receivedData.
           contact_slot d s
             = Normal (draw contactBubbleChart (StackedBar lbls sentData receivedData) s)
         \<and> length lbls = min 3 (length cs)
         \<and> length sentData = min 3 (length cs)
         \<and> length receivedData = min 3 (length cs)
         \<and> (\<forall>i<min 3 (length cs).
               (length (ls i) > 15 \<longrightarrow> lbls ! i = take 12 (ls i) @ ''...'')
             \<and> (length (ls i) \<le> 15 \<longrightarrow> lbls ! i = ls i)
             \<and> sentData ! i = js_or0 (sent (cs ! i))
             \<and> receivedData ! i = js_or0 (received (cs ! i)))"
proof -
  let ?f = "take 3 cs"
  have len: "length ?f = min 3 (length cs)" by (simp add: min.commute)
  have nth: "?f ! i = cs ! i" if "i < min 3 (length cs)" for i using that by simp
  have "\<forall>x\<in>set ?f. \<exists>y. truncate_label x = Inr y"
  proof
    fix x assume "x \<in> set ?f"
    then obtain i where i: "i < length ?f" "?f ! i = x" by (auto simp: in_set_conv_nth)
    with assms(5) len nth have "label x = Some (ls i)" by auto
    then show "\<exists>y. truncate_label x = Inr y" by (simp add: truncate_label_def)
  qed
  from map_throw_all_Inr [OF this] obtain lbls where
    lbls: "map_throw truncate_label ?f = Inr lbls" "length lbls = length ?f"
      "\<forall>i<length ?f. truncate_label (?f ! i) = Inr (lbls ! i)" by blast
  have lab: "lbls ! i = (if length (ls i) > 15 then take 12 (ls i) @ ''...'' else ls i)"
    if "i < min 3 (length cs)" for i
  proof -
    have "label (?f ! i) = Some (ls i)" using that assms(5) nth by simp
    from truncate_label_Some [OF this] lbls(3) that len show ?thesis by simp
  qed
  have "(\<forall>i<min 3 (length cs).
               (length (ls i) > 15 \<longrightarrow> lbls ! i = take 12 (ls i) @ ''...'')
             \<and> (length (ls i) \<le> 15 \<longrightarrow> lbls ! i = ls i)
             \<and> map (\<lambda>item. js_or0 (sent item)) ?f ! i = js_or0 (sent (cs ! i))
             \<and> map (\<lambda>item. js_or0 (received item)) ?f ! i = js_or0 (received (cs ! i)))"
    using lab by simp
  with contact_slot_fallback [OF assms(1-4) lbls(1)] lbls(2) len show ?thesis
    by (intro exI conjI) (assumption | simp)+
qed

text \<open>
  Two unpaired contacts, with a label of 22 characters and one of exactly 15.
\<close>

theorem fallback_stacked_bars_witness:
  "contact_slot (no_payload\<lparr>contact_data := Some two_unpaired\<rparr>) blank_page
     = Normal (draw contactBubbleChart
         (StackedBar [''newsletter@e...'', ''bob@example.com''] [0, 3] [5, 0]) blank_page)"
proof -
  let ?ls = "\<lambda>i::nat. if i = 0 then ''newsletter@example.com'' else ''bob@example.com''"
  have h1: "contact_data (no_payload\<lparr>contact_data := Some two_unpaired\<rparr>) = Some two_unpaired"
    by simp
  have h2: "two_unpaired \<noteq> []" by (simp add: two_unpaired_def)
  have h3: "\<not> hasEnoughData two_unpaired"
    by (simp add: two_unpaired_def hasEnoughData_def contact_def)
  have h4: "present (slots blank_page contactBubbleChart)" by (simp add: blank_page_def)
  have h5: "\<forall>i<min 3 (length two_unpaired). label (two_unpaired ! i) = Some (?ls i)"
    by (auto simp: two_unpaired_def contact_def less_Suc_eq)
  from fallback_stacked_bars [OF h1 h2 h3 h4 h5]
  obtain lbls sd rd where r: "contact_slot (no_payload\<lparr>contact_data := Some two_unpaired\<rparr>) blank_page
             = Normal (draw contactBubbleChart (StackedBar lbls sd rd) blank_page)"
    and l: "length lbls = 2" "length sd = 2" "length rd = 2"
    and e: "\<forall>i<2. (length (?ls i) > 15 \<longrightarrow> lbls ! i = take 12 (?ls i) @ ''...'')
             \<and> (length (?ls i) \<le> 15 \<longrightarrow> lbls ! i = ?ls i)
             \<and> sd ! i = js_or0 (sent (two_unpaired ! i))
             \<and> rd ! i = js_or0 (received (two_unpaired ! i))"
    by (auto simp: two_unpaired_def)
  have two: "xs = [xs ! 0, xs ! 1]" if "length xs = 2" for xs :: "'a list"
    using that by (cases xs; cases "tl xs") auto
  from e have e0: "lbls ! 0 = ''newsletter@e...''" "sd ! 0 = 0" "rd ! 0 = 5"
    by (auto simp: two_unpaired_def contact_def)
  from e have e1: "lbls ! 1 = ''bob@example.com''" "sd ! 1 = 3" "rd ! 1 = 0"
    by (auto simp: two_unpaired_def contact_def)
  have "lbls = [''newsletter@e...'', ''bob@example.com'']" "sd = [0, 3]" "rd = [5, 0]"
    using two [OF l(1)] two [OF l(2)] two [OF l(3)] e0 e1 by simp_all
  with r show ?thesis by simp
qed

subsection \<open>The gates of the dispatcher\<close>

lemma showNoDataMessage_slots:
  "slots (showNoDataMessage e t s) sid =
     (if sid = e \<and> present (slots s e) then \<lparr>present = False, shown = Placeholder t\<rparr>
      else slots s sid)"
  by (simp add: showNoDataMessage_def set_slot_def)

lemma showNoDataMessage_console: "console (showNoDataMessage e t s) = console s"
  by (simp add: showNoDataMessage_def set_slot_def)

lemma console_write_slots: "slots (console_write e s) = slots s"
  by (simp add: console_write_def)

lemma console_write_console: "console (console_write e s) = console s @ [e]"
  by (simp add: console_write_def)

text \<open>
  C4. Without a payload the dispatcher logs one error and returns normally; every element
  that is on the page gets the placeholder with its own title, an element that is not on
  the page is left as it was, and nothing is drawn. No field of a payload is read: there
  is none.
\<close>

theorem missing_payload_placeholders:
  "\<exists>s'. initializeAdvancedCharts None s = Normal s'
     \<and> console s' = console s @ [ErrorNoData]
     \<and> (\<forall>sid. (present (slots s sid) \<longrightarrow>
                  slots s' sid = \<lparr>present = False, shown = Placeholder (slot_title sid)\<rparr>)
             \<and> (\<not> present (slots s sid) \<longrightarrow> slots s' sid = slots s sid))"
proof -
  have "(present (slots s sid) \<longrightarrow>
           slots (page_of (initializeAdvancedCharts None s)) sid
             = \<lparr>present = False, shown = Placeholder (slot_title sid)\<rparr>)
      \<and> (\<not> present (slots s sid) \<longrightarrow>
           slots (page_of (initializeAdvancedCharts None s)) sid = slots s sid)" for sid
    by (cases sid)
       (simp_all add: initializeAdvancedCharts_def showNoDataMessage_slots console_write_slots)
  moreover have "console (page_of (initializeAdvancedCharts None s)) = console s @ [ErrorNoData]"
    by (simp add: initializeAdvancedCharts_def showNoDataMessage_console console_write_console)
  moreover have "\<exists>s'. initializeAdvancedCharts None s = Normal s'"
    by (simp add: initializeAdvancedCharts_def)
  ultimately show ?thesis by auto
qed

text \<open>On a page holding all five elements, all five show their placeholder.\<close>

theorem missing_payload_placeholders_witness:
  "slots (page_of (initializeAdvancedCharts None blank_page)) hourlyActivityChart
     = \<lparr>present = False, shown = Placeholder AtividadePorHora\<rparr>
   \<and> slots (page_of (initializeAdvancedCharts None blank_page)) contactBubbleChart
     = \<lparr>present = False, shown = Placeholder PrincipaisContatos\<rparr>
   \<and> slots (page_of (initializeAdvancedCharts None blank_page)) subjectWordCloudContainer
     = \<lparr>present = False, shown = Placeholder TermosMaisFrequentes\<rparr>
   \<and> slots (page_of (initializeAdvancedCharts None blank_page)) emailMetricsChart
     = \<lparr>present = False, shown = Placeholder MetricasDeComunicacao\<rparr>
   \<and> slots (page_of (initializeAdvancedCharts None blank_page)) activityHeatmapChart
     = \<lparr>present = False, shown = Placeholder MapaDeAtividade\<rparr>
   \<and> console (page_of (initializeAdvancedCharts None blank_page)) = [ErrorNoData]"
proof -
  have p: "present (slots blank_page sid)" for sid by (simp add: blank_page_def)
  have c: "console blank_page = []" by (simp add: blank_page_def)
  from missing_payload_placeholders [of blank_page] p c show ?thesis by auto
qed

text \<open>
  C3 does not hold of the code. The dispatcher tests \<^verbatim>\<open>hourly_activity\<close> for being an
  array only, not for \<^verbatim>\<open>length > 0\<close> as it does for the contacts, the word cloud and the
  heat map; \<^verbatim>\<open>createHourlyActivityChart\<close> then returns on an empty array without writing
  anything. With \<^verbatim>\<open>hourly_activity = []\<close> the hourly slot stays blank, where
  \<^verbatim>\<open>contact_data = []\<close> gives the contact slot its placeholder.
\<close>

theorem hourly_empty_array_no_placeholder:
  "slots (page_of (initializeAdvancedCharts (Some (no_payload\<lparr>hourly_activity := Some []\<rparr>)) blank_page))
      hourlyActivityChart = \<lparr>present = True, shown = Blank\<rparr>
   \<and> slots (page_of (initializeAdvancedCharts (Some (no_payload\<lparr>contact_data := Some []\<rparr>)) blank_page))
      contactBubbleChart = \<lparr>present = False, shown = Placeholder PrincipaisContatos\<rparr>"
  by (simp add: initializeAdvancedCharts_def try_body_def hourly_slot_def contact_slot_def
      word_cloud_slot_def metrics_slot_def heatmap_slot_def createHourlyActivityChart_def
      showNoDataMessage_slots console_write_slots no_payload_def)
     (simp add: blank_page_def)

lemma hasData_iff: "hasData vs \<longleftrightarrow> \<not> list_all (\<lambda>v. v = 0) vs"
  by (induction vs) (auto simp: hasData_def)

lemma heatmap_slot_cases:
  assumes "present (slots s activityHeatmapChart)"
  shows "heatmap_slot d s =
     (case activity_heatmap d of
        None \<Rightarrow> Normal (set_slot activityHeatmapChart \<lparr>present = False, shown = Placeholder MapaDeAtividade\<rparr> s)
      | Some vs \<Rightarrow>
          if vs = [] then Normal (set_slot activityHeatmapChart \<lparr>present = False, shown = Placeholder MapaDeAtividade\<rparr> s)
          else if list_all (\<lambda>v. v = 0) vs then Normal (set_slot activityHeatmapChart \<lparr>present = False, shown = Notice\<rparr> s)
          else Normal (draw activityHeatmapChart (createHeatMapChart vs) s))"
  using assms
  by (auto simp: heatmap_slot_def createActivityHeatmap_def showNoDataMessage_def
      notice_in_parent_def hasData_iff split: option.splits list.splits)

text \<open>
  C7. With the canvas on the page, the heat-map slot completes, and it shows a no-data
  block exactly when the matrix is absent, of zero length, or zero everywhere; otherwise
  the heat map of the matrix is drawn. An absent or zero-length matrix gets the
  placeholder of \<^verbatim>\<open>showNoDataMessage\<close>; a matrix of zeros, such as 168 zeros, gets the
  \<^verbatim>\<open>Dados insuficientes\<close> block that \<^verbatim>\<open>createActivityHeatmap\<close> writes, and no chart.
\<close>

theorem heatmap_gate:
  assumes "present (slots s activityHeatmapChart)"
  shows "\<exists>s'. heatmap_slot d s = Normal s'
     \<and> (no_data_shown (shown (slots s' activityHeatmapChart))
          \<longleftrightarrow> spec_heatmap_empty (activity_heatmap d))
     \<and> (\<forall>vs. activity_heatmap d = Some vs \<and> \<not> spec_heatmap_empty (Some vs) \<longrightarrow>
          shown (slots s' activityHeatmapChart) = Drawn (createHeatMapChart vs))
     \<and> (activity_heatmap d = Some (replicate 168 0) \<longrightarrow>
          shown (slots s' activityHeatmapChart) = Notice)"
  unfolding heatmap_slot_cases [OF assms]
  by (cases "activity_heatmap d") (auto simp: set_slot_def draw_def list_all_iff)

text \<open>168 zeros on a blank page.\<close>

theorem heatmap_gate_witness:
  "shown (slots (page_of (heatmap_slot (no_payload\<lparr>activity_heatmap := Some (replicate 168 0)\<rparr>) blank_page))
      activityHeatmapChart) = Notice
   \<and> no_data_shown (shown (slots (page_of
        (heatmap_slot (no_payload\<lparr>activity_heatmap := Some (replicate 168 0)\<rparr>) blank_page))
      activityHeatmapChart))"
proof -
  have p: "present (slots blank_page activityHeatmapChart)" by (simp add: blank_page_def)
  from heatmap_gate [OF p, of "no_payload\<lparr>activity_heatmap := Some (replicate 168 0)\<rparr>"]
  show ?thesis by auto
qed

subsection \<open>Heat map\<close>

lemma math_max_Max: "dat \<noteq> [] \<Longrightarrow> math_max dat = Some (Max (set dat))"
proof (cases dat)
  case Nil
  assume "dat \<noteq> []"
  with Nil show ?thesis by simp
next
  case (Cons v vs)
  show ?thesis unfolding Cons using Max.set_eq_fold [of v vs] by simp
qed

lemma hasData_Max: "hasData dat \<Longrightarrow> dat \<noteq> [] \<and> 0 < Max (set dat)"
proof -
  assume "hasData dat"
  then obtain v where v: "v \<in> set dat" "0 < v"
    by (auto simp: hasData_def list_ex_iff)
  from v(1) have "v \<le> Max (set dat)" by (intro Max_ge) simp_all
  with v have "0 < Max (set dat)" by linarith
  moreover from v(1) have "dat \<noteq> []" by auto
  ultimately show ?thesis by simp
qed

lemma createHeatMapChart_rows:
  "\<exists>rows. createHeatMapChart dat = HeatMap rows \<and> length rows = 7
     \<and> (\<forall>day<7. length (rows ! day) = 24
          \<and> (\<forall>h<24. rows ! day ! h =
                \<lparr>cell_value = js_or0 (js_index dat (day * 24 + h)),
                 cell_colour = backgroundColor (math_max dat) (js_or0 (js_index dat (day * 24 + h)))\<rparr>))"
  by (simp add: createHeatMapChart_def Let_def)

lemma js_or0_index:
  "js_or0 (js_index dat i) = (if i < length dat \<and> dat ! i \<noteq> 0 then dat ! i else 0)"
  by (simp add: js_index_def)

text \<open>
  C10. For an activity array of any length, \<^verbatim>\<open>createHeatMapChart\<close> builds exactly 7 rows
  of 24 cells; the cell of day \<open>day\<close> and hour \<open>h\<close> holds the entry at index
  \<open>day * 24 + h\<close> when that index exists and the entry is not 0, and 0 otherwise. So a short
  array is extended with zeros and entries from index 168 on reach no cell. When the
  array holds a positive value and the canvas is on the page, the heat-map slot completes
  and draws these rows.
\<close>

theorem heatmap_reshape:
  "\<exists>rows. createHeatMapChart dat = HeatMap rows
     \<and> length rows = 7
     \<and> (\<forall>day<7. length (rows ! day) = 24
          \<and> (\<forall>h<24. cell_value (rows ! day ! h)
                = (if day * 24 + h < length dat \<and> dat ! (day * 24 + h) \<noteq> 0
                   then dat ! (day * 24 + h) else 0)))
     \<and> (activity_heatmap d = Some dat \<and> hasData dat \<and> present (slots s activityHeatmapChart)
          \<longrightarrow> heatmap_slot d s = Normal (draw activityHeatmapChart (HeatMap rows) s))"
proof -
  obtain rows where rows: "createHeatMapChart dat = HeatMap rows" "length rows = 7"
    "\<forall>day<7. length (rows ! day) = 24
          \<and> (\<forall>h<24. rows ! day ! h =
                \<lparr>cell_value = js_or0 (js_index dat (day * 24 + h)),
                 cell_colour = backgroundColor (math_max dat) (js_or0 (js_index dat (day * 24 + h)))\<rparr>)"
    using createHeatMapChart_rows by blast
  have slot: "heatmap_slot d s = Normal (draw activityHeatmapChart (HeatMap rows) s)"
    if "activity_heatmap d = Some dat" "hasData dat" "present (slots s activityHeatmapChart)"
  proof (cases dat)
    case Nil
    with that(2) show ?thesis by (simp add: hasData_def)
  next
    case (Cons v vs)
    with that rows(1) show ?thesis
      by (simp add: heatmap_slot_def createActivityHeatmap_def)
  qed
  from rows(3) have "\<forall>day<7. length (rows ! day) = 24
          \<and> (\<forall>h<24. cell_value (rows ! day ! h)
                = (if day * 24 + h < length dat \<and> dat ! (day * 24 + h) \<noteq> 0
                   then dat ! (day * 24 + h) else 0))"
    by (simp add: js_or0_index)
  with rows(1,2) slot show ?thesis by blast
qed

text \<open>An array of two entries: 7 rows of 24, the 3 at day 0, hour 1, zeros beyond.\<close>

theorem heatmap_reshape_witness:
  "heatmap_slot (no_payload\<lparr>activity_heatmap := Some [0, 3]\<rparr>) blank_page
     = Normal (draw activityHeatmapChart (createHeatMapChart [0, 3]) blank_page)
   \<and> (case createHeatMapChart [0, 3] of
         HeatMap rows \<Rightarrow> length rows = 7 \<and> length (rows ! 6) = 24
           \<and> cell_value (rows ! 0 ! 1) = 3 \<and> cell_value (rows ! 6 ! 23) = 0
       | _ \<Rightarrow> False)"
proof -
  have h: "activity_heatmap (no_payload\<lparr>activity_heatmap := Some [0, 3]\<rparr>) = Some [0, 3]
      \<and> hasData [0, 3] \<and> present (slots blank_page activityHeatmapChart)"
    by (simp add: hasData_def blank_page_def)
  from heatmap_reshape [of "[0, 3]" "no_payload\<lparr>activity_heatmap := Some [0, 3]\<rparr>" blank_page]
  obtain rows where r: "createHeatMapChart [0, 3] = HeatMap rows" "length rows = 7"
    "\<forall>day<7. length (rows ! day) = 24
          \<and> (\<forall>h<24. cell_value (rows ! day ! h)
                = (if day * 24 + h < length [0, 3::nat] \<and> [0, 3::nat] ! (day * 24 + h) \<noteq> 0
                   then [0, 3] ! (day * 24 + h) else 0))"
    "heatmap_slot (no_payload\<lparr>activity_heatmap := Some [0, 3]\<rparr>) blank_page
       = Normal (draw activityHeatmapChart (HeatMap rows) blank_page)"
    using h by auto
  from r(3) have "length (rows ! 6) = 24" "cell_value (rows ! 0 ! 1) = 3"
    "cell_value (rows ! 6 ! 23) = 0"
    by (auto dest: spec [of _ 6] spec [of _ 0])
  with r show ?thesis by simp
qed


lemma backgroundColor_pos:
  "0 < m \<Longrightarrow> backgroundColor (Some m) v =
     (if v = 0 then ZeroColour
      else if spec_intensity m v < 0.5 then BlueToYellow (spec_intensity m v)
      else YellowToRed (spec_intensity m v))"
  by (simp add: backgroundColor_def intensity_of_def spec_intensity_def Let_def)

lemma heat_cell_at:
  assumes "hasData dat" and "createHeatMapChart dat = HeatMap rows" and "day < 7" and "h < 24"
  shows "cell_value (rows ! day ! h) = js_or0 (js_index dat (day * 24 + h))"
    and "cell_colour (rows ! day ! h) =
      (if cell_value (rows ! day ! h) = 0 then ZeroColour
       else if spec_intensity (Max (set dat)) (cell_value (rows ! day ! h)) < 0.5
         then BlueToYellow (spec_intensity (Max (set dat)) (cell_value (rows ! day ! h)))
       else YellowToRed (spec_intensity (Max (set dat)) (cell_value (rows ! day ! h))))"
proof -
  from createHeatMapChart_rows [of dat] assms(2-4)
  have c: "rows ! day ! h =
      \<lparr>cell_value = js_or0 (js_index dat (day * 24 + h)),
       cell_colour = backgroundColor (math_max dat) (js_or0 (js_index dat (day * 24 + h)))\<rparr>"
    by auto
  then show "cell_value (rows ! day ! h) = js_or0 (js_index dat (day * 24 + h))" by simp
  from hasData_Max [OF assms(1)] have m: "math_max dat = Some (Max (set dat))" "0 < Max (set dat)"
    by (simp_all add: math_max_Max)
  show "cell_colour (rows ! day ! h) =
      (if cell_value (rows ! day ! h) = 0 then ZeroColour
       else if spec_intensity (Max (set dat)) (cell_value (rows ! day ! h)) < 0.5
         then BlueToYellow (spec_intensity (Max (set dat)) (cell_value (rows ! day ! h)))
       else YellowToRed (spec_intensity (Max (set dat)) (cell_value (rows ! day ! h))))"
    unfolding c m(1) backgroundColor_pos [OF m(2)] by simp
qed

lemma single_nonzero_Max:
  assumes "hasData dat" and "i < length dat" and "\<forall>j<length dat. j \<noteq> i \<longrightarrow> dat ! j = 0"
  shows "0 < dat ! i" and "Max (set dat) = dat ! i"
proof -
  from assms(1) obtain k where k: "k < length dat" "0 < dat ! k"
    by (auto simp: hasData_def list_ex_iff in_set_conv_nth)
  with assms(3) have "k = i" by force
  with k show pos: "0 < dat ! i" by simp
  show "Max (set dat) = dat ! i"
  proof (rule Max_eqI)
    show "finite (set dat)" by simp
    show "dat ! i \<in> set dat" using assms(2) by simp
    fix y assume "y \<in> set dat"
    then obtain j where "j < length dat" "dat ! j = y" by (auto simp: in_set_conv_nth)
    with assms(3) show "y \<le> dat ! i" by (cases "j = i") auto
  qed
qed

lemma spec_intensity_self: "0 < v \<Longrightarrow> spec_intensity v v = 1"
  by (simp add: spec_intensity_def)

lemma heat_cell_colour_cases:
  assumes "hasData dat" and "createHeatMapChart dat = HeatMap rows" and "day < 7" and "h < 24"
  shows "cell_value (rows ! day ! h)
           = (if day * 24 + h < length dat then dat ! (day * 24 + h) else 0)
     \<and> (cell_value (rows ! day ! h) = 0 \<longrightarrow> cell_colour (rows ! day ! h) = ZeroColour)
     \<and> (cell_value (rows ! day ! h) \<noteq> 0
          \<and> spec_intensity (Max (set dat)) (cell_value (rows ! day ! h)) < 0.5 \<longrightarrow>
        cell_colour (rows ! day ! h)
          = BlueToYellow (spec_intensity (Max (set dat)) (cell_value (rows ! day ! h))))
     \<and> (cell_value (rows ! day ! h) \<noteq> 0
          \<and> \<not> spec_intensity (Max (set dat)) (cell_value (rows ! day ! h)) < 0.5 \<longrightarrow>
        cell_colour (rows ! day ! h)
          = YellowToRed (spec_intensity (Max (set dat)) (cell_value (rows ! day ! h))))
     \<and> (\<forall>i. i < length dat \<and> i < 168 \<and> (\<forall>j<length dat. j \<noteq> i \<longrightarrow> dat ! j = 0) \<longrightarrow>
          (if day * 24 + h = i
           then spec_intensity (Max (set dat)) (cell_value (rows ! day ! h)) = 1
              \<and> cell_colour (rows ! day ! h) = YellowToRed 1
           else cell_colour (rows ! day ! h) = ZeroColour))"
proof -
  note cell = heat_cell_at [OF assms]
  have single: "if day * 24 + h = i
           then spec_intensity (Max (set dat)) (cell_value (rows ! day ! h)) = 1
              \<and> cell_colour (rows ! day ! h) = YellowToRed 1
           else cell_colour (rows ! day ! h) = ZeroColour"
    if i: "i < length dat" "\<forall>j<length dat. j \<noteq> i \<longrightarrow> dat ! j = 0" for i
  proof (cases "day * 24 + h = i")
    case True
    from single_nonzero_Max [OF assms(1) i] have m: "0 < dat ! i" "Max (set dat) = dat ! i" .
    from True i(1) m(1) have v: "cell_value (rows ! day ! h) = dat ! i"
      by (simp add: cell(1) js_index_def)
    have t: "spec_intensity (Max (set dat)) (cell_value (rows ! day ! h)) = 1"
      unfolding v m(2) by (rule spec_intensity_self [OF m(1)])
    have "cell_colour (rows ! day ! h) = YellowToRed 1"
      using cell(2) t v m(1) by simp
    with t True show ?thesis by simp
  next
    case False
    with i(2) have "cell_value (rows ! day ! h) = 0"
      by (simp add: cell(1) js_index_def)
    with cell(2) False show ?thesis by simp
  qed
  have val: "cell_value (rows ! day ! h)
           = (if day * 24 + h < length dat then dat ! (day * 24 + h) else 0)"
    by (simp add: cell(1) js_index_def)
  have zero: "cell_value (rows ! day ! h) = 0 \<longrightarrow> cell_colour (rows ! day ! h) = ZeroColour"
    using cell(2) by simp
  have low: "cell_value (rows ! day ! h) \<noteq> 0
          \<and> spec_intensity (Max (set dat)) (cell_value (rows ! day ! h)) < 0.5 \<longrightarrow>
        cell_colour (rows ! day ! h)
          = BlueToYellow (spec_intensity (Max (set dat)) (cell_value (rows ! day ! h)))"
    using cell(2) by simp
  have high: "cell_value (rows ! day ! h) \<noteq> 0
          \<and> \<not> spec_intensity (Max (set dat)) (cell_value (rows ! day ! h)) < 0.5 \<longrightarrow>
        cell_colour (rows ! day ! h)
          = YellowToRed (spec_intensity (Max (set dat)) (cell_value (rows ! day ! h)))"
    using cell(2) by simp
  have one: "\<forall>i. i < length dat \<and> i < 168 \<and> (\<forall>j<length dat. j \<noteq> i \<longrightarrow> dat ! j = 0) \<longrightarrow>
          (if day * 24 + h = i
           then spec_intensity (Max (set dat)) (cell_value (rows ! day ! h)) = 1
              \<and> cell_colour (rows ! day ! h) = YellowToRed 1
           else cell_colour (rows ! day ! h) = ZeroColour)"
    using single by blast
  show ?thesis by (rule conjI [OF val conjI [OF zero conjI [OF low conjI [OF high one]]]])
qed

lemma heatmap_slot_draws:
  assumes "activity_heatmap d = Some dat" and "hasData dat"
    and "present (slots s activityHeatmapChart)"
  shows "heatmap_slot d s = Normal (draw activityHeatmapChart (createHeatMapChart dat) s)"
proof (cases dat)
  case Nil
  with assms(2) show ?thesis by (simp add: hasData_def)
next
  case (Cons v vs)
  with assms show ?thesis
    by (simp add: heatmap_slot_def createActivityHeatmap_def)
qed

lemma yellow_to_red_channels_1: "yellow_to_red_channels 1 = (255, 99, 64)"
  by (simp add: yellow_to_red_channels_def)

text \<open>
  C8. For an array that holds a positive value, the heat map is built (and drawn by the
  heat-map slot when the canvas is on the page), and each of its 7 by 24 cells is coloured
  as follows: the neutral colour for the value 0; otherwise, with
  \<open>intensity = min 1 (value / (max * 0.7))\<close> over the maximum of the array, the
  blue-to-yellow branch when \<open>intensity < 0.5\<close> and the yellow-to-red branch when not. When
  a single entry \<open>i\<close> of the array, among the first 168, is not 0, its cell has intensity 1
  and the yellow-to-red branch at 1, the red end of the gradient, whose channel
  expressions are 255, 99 and 64; every other cell has the neutral colour.
\<close>

theorem heatmap_cell_colours:
  assumes "hasData dat"
  shows "\<exists>rows. createHeatMapChart dat = HeatMap rows
     \<and> length rows = 7
     \<and> (\<forall>day<7. length (rows ! day) = 24
          \<and> (\<forall>h<24.
               cell_value (rows ! day ! h)
                 = (if day * 24 + h < length dat then dat ! (day * 24 + h) else 0)
             \<and> (cell_value (rows ! day ! h) = 0 \<longrightarrow> cell_colour (rows ! day ! h) = ZeroColour)
             \<and> (cell_value (rows ! day ! h) \<noteq> 0
                  \<and> spec_intensity (Max (set dat)) (cell_value (rows ! day ! h)) < 0.5 \<longrightarrow>
                cell_colour (rows ! day ! h)
                  = BlueToYellow (spec_intensity (Max (set dat)) (cell_value (rows ! day ! h))))
             \<and> (cell_value (rows ! day ! h) \<noteq> 0
                  \<and> \<not> spec_intensity (Max (set dat)) (cell_value (rows ! day ! h)) < 0.5 \<longrightarrow>
                cell_colour (rows ! day ! h)
                  = YellowToRed (spec_intensity (Max (set dat)) (cell_value (rows ! day ! h))))
             \<and> (\<forall>i. i < length dat \<and> i < 168
                      \<and> (\<forall>j<length dat. j \<noteq> i \<longrightarrow> dat ! j = 0) \<longrightarrow>
                  (if day * 24 + h = i
                   then spec_intensity (Max (set dat)) (cell_value (rows ! day ! h)) = 1
                      \<and> cell_colour (rows ! day ! h) = YellowToRed 1
                   else cell_colour (rows ! day ! h) = ZeroColour))))
     \<and> yellow_to_red_channels 1 = (255, 99, 64)
     \<and> (activity_heatmap d = Some dat \<and> present (slots s activityHeatmapChart) \<longrightarrow>
          heatmap_slot d s = Normal (draw activityHeatmapChart (HeatMap rows) s))"
proof -
  obtain rows where rows: "createHeatMapChart dat = HeatMap rows" "length rows = 7"
    and len: "\<forall>day<7. length (rows ! day) = 24"
    using createHeatMapChart_rows [of dat] by blast
  have slot: "activity_heatmap d = Some dat \<and> present (slots s activityHeatmapChart) \<longrightarrow>
          heatmap_slot d s = Normal (draw activityHeatmapChart (HeatMap rows) s)"
    using heatmap_slot_draws [of d dat s] assms rows(1) by simp
  from len heat_cell_colour_cases [OF assms rows(1)]
  have cells: "\<forall>day<7. length (rows ! day) = 24
          \<and> (\<forall>h<24.
               cell_value (rows ! day ! h)
                 = (if day * 24 + h < length dat then dat ! (day * 24 + h) else 0)
             \<and> (cell_value (rows ! day ! h) = 0 \<longrightarrow> cell_colour (rows ! day ! h) = ZeroColour)
             \<and> (cell_value (rows ! day ! h) \<noteq> 0
                  \<and> spec_intensity (Max (set dat)) (cell_value (rows ! day ! h)) < 0.5 \<longrightarrow>
                cell_colour (rows ! day ! h)
                  = BlueToYellow (spec_intensity (Max (set dat)) (cell_value (rows ! day ! h))))
             \<and> (cell_value (rows ! day ! h) \<noteq> 0
                  \<and> \<not> spec_intensity (Max (set dat)) (cell_value (rows ! day ! h)) < 0.5 \<longrightarrow>
                cell_colour (rows ! day ! h)
                  = YellowToRed (spec_intensity (Max (set dat)) (cell_value (rows ! day ! h))))
             \<and> (\<forall>i. i < length dat \<and> i < 168
                      \<and> (\<forall>j<length dat. j \<noteq> i \<longrightarrow> dat ! j = 0) \<longrightarrow>
                  (if day * 24 + h = i
                   then spec_intensity (Max (set dat)) (cell_value (rows ! day ! h)) = 1
                      \<and> cell_colour (rows ! day ! h) = YellowToRed 1
                   else cell_colour (rows ! day ! h) = ZeroColour)))"
    by blast
  show ?thesis
    by (rule exI [of _ rows])
       (rule conjI [OF rows(1) conjI [OF rows(2) conjI [OF cells
          conjI [OF yellow_to_red_channels_1 slot]]]])
qed

text \<open>
  The array \<open>[0, 4, 0]\<close>: the red end for the 4, neutral beside it. The array
  \<open>[1, 10]\<close>: the cell of the 1 has intensity \<open>1/7\<close>, on the blue-to-yellow branch.
\<close>

theorem heatmap_cell_colours_witness:
  "cell_colour (chart_rows (createHeatMapChart [0, 4, 0]) ! 0 ! 1) = YellowToRed 1
   \<and> cell_colour (chart_rows (createHeatMapChart [0, 4, 0]) ! 0 ! 2) = ZeroColour
   \<and> cell_colour (chart_rows (createHeatMapChart [1, 10]) ! 0 ! 0) = BlueToYellow (1 / 7)
   \<and> length (chart_rows (createHeatMapChart [1, 10])) = 7"
proof -
  have d0: "(0::nat) < 7" and h0: "(0::nat) < 24" and h1: "(1::nat) < 24" and h2: "(2::nat) < 24"
    by simp_all
  have h: "hasData [0, 4, 0]" by (simp add: hasData_def)
  have p: "(1::nat) < length [0, 4, 0::nat] \<and> (1::nat) < 168
      \<and> (\<forall>j<length [0, 4, 0::nat]. j \<noteq> 1 \<longrightarrow> [0, 4, 0::nat] ! j = 0)"
    by (simp add: nth_Cons split: nat.splits)
  from heatmap_cell_colours [OF h, of no_payload blank_page] obtain rows where
    R: "createHeatMapChart [0, 4, 0] = HeatMap rows
     \<and> length rows = 7
     \<and> (\<forall>day<7. length (rows ! day) = 24
          \<and> (\<forall>h<24.
               cell_value (rows ! day ! h)
                 = (if day * 24 + h < length [0, 4, 0::nat] then [0, 4, 0] ! (day * 24 + h) else 0)
             \<and> (cell_value (rows ! day ! h) = 0 \<longrightarrow> cell_colour (rows ! day ! h) = ZeroColour)
             \<and> (cell_value (rows ! day ! h) \<noteq> 0
                  \<and> spec_intensity (Max (set [0, 4, 0])) (cell_value (rows ! day ! h)) < 0.5 \<longrightarrow>
                cell_colour (rows ! day ! h)
                  = BlueToYellow (spec_intensity (Max (set [0, 4, 0])) (cell_value (rows ! day ! h))))
             \<and> (cell_value (rows ! day ! h) \<noteq> 0
                  \<and> \<not> spec_intensity (Max (set [0, 4, 0])) (cell_value (rows ! day ! h)) < 0.5 \<longrightarrow>
                cell_colour (rows ! day ! h)
                  = YellowToRed (spec_intensity (Max (set [0, 4, 0])) (cell_value (rows ! day ! h))))
             \<and> (\<forall>i. i < length [0, 4, 0::nat] \<and> i < 168
                      \<and> (\<forall>j<length [0, 4, 0::nat]. j \<noteq> i \<longrightarrow> [0, 4, 0::nat] ! j = 0) \<longrightarrow>
                  (if day * 24 + h = i
                   then spec_intensity (Max (set [0, 4, 0])) (cell_value (rows ! day ! h)) = 1
                      \<and> cell_colour (rows ! day ! h) = YellowToRed 1
                   else cell_colour (rows ! day ! h) = ZeroColour))))
     \<and> yellow_to_red_channels 1 = (255, 99, 64)
     \<and> (activity_heatmap no_payload = Some [0, 4, 0] \<and> present (slots blank_page activityHeatmapChart) \<longrightarrow>
          heatmap_slot no_payload blank_page = Normal (draw activityHeatmapChart (HeatMap rows) blank_page))"
    by (rule exE)
  note r = R [THEN conjunct1]
  note C = R [THEN conjunct2, THEN conjunct2, THEN conjunct1, rule_format, OF d0,
      THEN conjunct2, rule_format]
  from C [OF h1, THEN conjunct2, THEN conjunct2, THEN conjunct2, THEN conjunct2,
      THEN spec, of 1, THEN mp, OF p]
  have a: "cell_colour (rows ! 0 ! 1) = YellowToRed 1" by simp
  from C [OF h2, THEN conjunct2, THEN conjunct2, THEN conjunct2, THEN conjunct2,
      THEN spec, of 1, THEN mp, OF p]
  have b: "cell_colour (rows ! 0 ! 2) = ZeroColour" by simp
  have h': "hasData [1, 10]" by (simp add: hasData_def)
  from heatmap_cell_colours [OF h', of no_payload blank_page] obtain rows' where
    R': "createHeatMapChart [1, 10] = HeatMap rows'
     \<and> length rows' = 7
     \<and> (\<forall>day<7. length (rows' ! day) = 24
          \<and> (\<forall>h<24.
               cell_value (rows' ! day ! h)
                 = (if day * 24 + h < length [1, 10::nat] then [1, 10] ! (day * 24 + h) else 0)
             \<and> (cell_value (rows' ! day ! h) = 0 \<longrightarrow> cell_colour (rows' ! day ! h) = ZeroColour)
             \<and> (cell_value (rows' ! day ! h) \<noteq> 0
                  \<and> spec_intensity (Max (set [1, 10])) (cell_value (rows' ! day ! h)) < 0.5 \<longrightarrow>
                cell_colour (rows' ! day ! h)
                  = BlueToYellow (spec_intensity (Max (set [1, 10])) (cell_value (rows' ! day ! h))))
             \<and> (cell_value (rows' ! day ! h) \<noteq> 0
                  \<and> \<not> spec_intensity (Max (set [1, 10])) (cell_value (rows' ! day ! h)) < 0.5 \<longrightarrow>
                cell_colour (rows' ! day ! h)
                  = YellowToRed (spec_intensity (Max (set [1, 10])) (cell_value (rows' ! day ! h))))
             \<and> (\<forall>i. i < length [1, 10::nat] \<and> i < 168
                      \<and> (\<forall>j<length [1, 10::nat]. j \<noteq> i \<longrightarrow> [1, 10::nat] ! j = 0) \<longrightarrow>
                  (if day * 24 + h = i
                   then spec_intensity (Max (set [1, 10])) (cell_value (rows' ! day ! h)) = 1
                      \<and> cell_colour (rows' ! day ! h) = YellowToRed 1
                   else cell_colour (rows' ! day ! h) = ZeroColour))))
     \<and> yellow_to_red_channels 1 = (255, 99, 64)
     \<and> (activity_heatmap no_payload = Some [1, 10] \<and> present (slots blank_page activityHeatmapChart) \<longrightarrow>
          heatmap_slot no_payload blank_page = Normal (draw activityHeatmapChart (HeatMap rows') blank_page))"
    by (rule exE)
  note r' = R' [THEN conjunct1]
  note l' = R' [THEN conjunct2, THEN conjunct1]
  note C' = R' [THEN conjunct2, THEN conjunct2, THEN conjunct1, rule_format, OF d0,
      THEN conjunct2, rule_format, OF h0]
  from C' [THEN conjunct1] have v: "cell_value (rows' ! 0 ! 0) = 1" by simp
  have m: "Max (set [1, 10::nat]) = 10" by simp
  have t: "spec_intensity 10 1 = 1 / 7" by (simp add: spec_intensity_def)
  have lt: "cell_value (rows' ! 0 ! 0) \<noteq> 0
      \<and> spec_intensity (Max (set [1, 10])) (cell_value (rows' ! 0 ! 0)) < 0.5"
    unfolding v m t by simp
  from C' [THEN conjunct2, THEN conjunct2, THEN conjunct1, THEN mp, OF lt]
  have cc: "cell_colour (rows' ! 0 ! 0) = BlueToYellow (1 / 7)"
    unfolding v m t .
  from a b cc l' r r' show ?thesis by simp
qed

subsection \<open>Word cloud\<close>

lemma take_min_length: "take (min n (length xs)) xs = take n xs"
  by (simp add: min_def)

lemma set_slot_twice: "set_slot sid a (set_slot sid b s) = set_slot sid a s"
  by (simp add: set_slot_def)

lemma createWordCloudVisualization_Cons:
  assumes "present (slots s subjectWordCloudContainer)"
  shows "createWordCloudVisualization (Some (w # ws)) s =
     Normal (set_slot subjectWordCloudContainer
       \<lparr>present = True,
        shown = WordCloud (map (\<lambda>(index, item). word_span (weight w) index item)
                            (enumerate 0 (take 20 (w # ws))))\<rparr> s)"
proof -
  have "take (min 20 (length (w # ws))) (w # ws) = w # take 19 ws"
    unfolding take_min_length by (simp add: take_Cons')
  moreover have "take 20 (w # ws) = w # take 19 ws" by (simp add: take_Cons')
  ultimately show ?thesis using assms
    by (simp add: createWordCloudVisualization_def Let_def set_slot_twice del: list.size)
qed

lemma length_colors: "length colors = 10"
  by (simp add: colors_def)

text \<open>
  C6. A non-empty term list, with the container on the page, is shown as a word cloud of
  its first \<open>min 20 n\<close> terms in the given order. With \<open>maxWeight\<close> the weight of the
  first term, the \<open>i\<close>-th span has font size \<open>14 + (40 - 14) * (weight / maxWeight)\<close>, is
  bold exactly when \<open>weight / maxWeight > 0.6\<close>, and has the colour at index \<open>i mod 10\<close> of
  the palette of 10 colours. The quotient is JavaScript's (\<open>js_div\<close>); when \<open>maxWeight\<close>
  is positive it is the real quotient.
\<close>

theorem word_cloud_spans:
  assumes "word_cloud d = Some terms" and "terms \<noteq> []"
    and "present (slots s subjectWordCloudContainer)"
  shows "\<exists>spans. word_cloud_slot d s
           = Normal (set_slot subjectWordCloudContainer \<lparr>present = True, shown = WordCloud spans\<rparr> s)
     \<and> length spans = min 20 (length terms)
     \<and> length colors = 10
     \<and> (\<forall>i<length spans.
           span_text (spans ! i) = word_text (terms ! i)
         \<and> font_size (spans ! i)
             = js_add (Fin 14) (js_mul (Fin (40 - 14))
                 (js_div (real (weight (terms ! i))) (real (weight (terms ! 0)))))
         \<and> bold (spans ! i)
             = js_gt (js_div (real (weight (terms ! i))) (real (weight (terms ! 0)))) (Fin 0.6)
         \<and> span_color (spans ! i) = colors ! (i mod 10)
         \<and> (0 < weight (terms ! 0) \<longrightarrow>
               font_size (spans ! i)
                 = Fin (14 + (40 - 14) * (real (weight (terms ! i)) / real (weight (terms ! 0))))
             \<and> (bold (spans ! i)
                 \<longleftrightarrow> real (weight (terms ! i)) / real (weight (terms ! 0)) > 0.6)))"
proof -
  from assms(2) obtain w ws where terms: "terms = w # ws" by (cases terms) auto
  let ?spans = "map (\<lambda>(index, item). word_span (weight w) index item) (enumerate 0 (take 20 terms))"
  have slot: "word_cloud_slot d s
      = Normal (set_slot subjectWordCloudContainer \<lparr>present = True, shown = WordCloud ?spans\<rparr> s)"
    using assms(1) createWordCloudVisualization_Cons [OF assms(3), of w ws]
    by (simp add: word_cloud_slot_def terms)
  have len: "length ?spans = min 20 (length terms)" by (simp add: min.commute)
  have w0: "weight w = weight (terms ! 0)" by (simp add: terms)
  have nth: "?spans ! i = word_span (weight (terms ! 0)) i (terms ! i)" if "i < length ?spans" for i
    using that by (simp add: nth_enumerate_eq w0)
  have each: "span_text (?spans ! i) = word_text (terms ! i)
         \<and> font_size (?spans ! i)
             = js_add (Fin 14) (js_mul (Fin (40 - 14))
                 (js_div (real (weight (terms ! i))) (real (weight (terms ! 0)))))
         \<and> bold (?spans ! i)
             = js_gt (js_div (real (weight (terms ! i))) (real (weight (terms ! 0)))) (Fin 0.6)
         \<and> span_color (?spans ! i) = colors ! (i mod 10)
         \<and> (0 < weight (terms ! 0) \<longrightarrow>
               font_size (?spans ! i)
                 = Fin (14 + (40 - 14) * (real (weight (terms ! i)) / real (weight (terms ! 0))))
             \<and> (bold (?spans ! i)
                 \<longleftrightarrow> real (weight (terms ! i)) / real (weight (terms ! 0)) > 0.6))"
    if "i < length ?spans" for i
    unfolding nth [OF that]
    by (simp add: word_span_def Let_def length_colors js_div_def)
  from slot len length_colors each show ?thesis by blast
qed

text \<open>
  The terms \<open>a\<close> of weight 40 and \<open>b\<close> of weight 20: font sizes 40 and 27, only \<open>a\<close>
  bold.
\<close>

theorem word_cloud_spans_witness:
  "cloud_spans (shown (slots (page_of
      (word_cloud_slot (no_payload\<lparr>word_cloud := Some [term_of ''a'' 40, term_of ''b'' 20]\<rparr>)
         blank_page)) subjectWordCloudContainer))
   = [\<lparr>span_text = ''a'', font_size = Fin 40, bold = True, span_color = ''#4f46e5''\<rparr>,
      \<lparr>span_text = ''b'', font_size = Fin 27, bold = False, span_color = ''#10b981''\<rparr>]"
proof -
  let ?terms = "[term_of ''a'' 40, term_of ''b'' 20]"
  have h1: "word_cloud (no_payload\<lparr>word_cloud := Some ?terms\<rparr>) = Some ?terms" by simp
  have h2: "?terms \<noteq> []" by simp
  have h3: "present (slots blank_page subjectWordCloudContainer)" by (simp add: blank_page_def)
  from word_cloud_spans [OF h1 h2 h3] obtain spans where
    r: "word_cloud_slot (no_payload\<lparr>word_cloud := Some ?terms\<rparr>) blank_page
           = Normal (set_slot subjectWordCloudContainer \<lparr>present = True, shown = WordCloud spans\<rparr> blank_page)"
    and l': "length spans = min 20 (length ?terms)"
    and e': "\<forall>i<length spans.
           span_text (spans ! i) = word_text (?terms ! i)
         \<and> font_size (spans ! i)
             = js_add (Fin 14) (js_mul (Fin (40 - 14))
                 (js_div (real (weight (?terms ! i))) (real (weight (?terms ! 0)))))
         \<and> bold (spans ! i)
             = js_gt (js_div (real (weight (?terms ! i))) (real (weight (?terms ! 0)))) (Fin 0.6)
         \<and> span_color (spans ! i) = colors ! (i mod 10)
         \<and> (0 < weight (?terms ! 0) \<longrightarrow>
               font_size (spans ! i)
                 = Fin (14 + (40 - 14) * (real (weight (?terms ! i)) / real (weight (?terms ! 0))))
             \<and> (bold (spans ! i)
                 \<longleftrightarrow> real (weight (?terms ! i)) / real (weight (?terms ! 0)) > 0.6))"
    by blast
  from l' have l: "length spans = 2" by simp
  have e: "span_text (spans ! i) = word_text (?terms ! i)
         \<and> span_color (spans ! i) = colors ! (i mod 10)
         \<and> font_size (spans ! i)
                 = Fin (14 + (40 - 14) * (real (weight (?terms ! i)) / real (weight (?terms ! 0))))
         \<and> (bold (spans ! i)
                 \<longleftrightarrow> real (weight (?terms ! i)) / real (weight (?terms ! 0)) > 0.6)"
    if "i < 2" for i
  proof -
    have "0 < weight (?terms ! 0)" by (simp add: term_of_def)
    moreover from that l have "i < length spans" by simp
    ultimately show ?thesis using e' [rule_format, of i] by blast
  qed
  have two: "xs = [xs ! 0, xs ! 1]" if "length xs = 2" for xs :: "'a list"
    using that by (cases xs; cases "tl xs") auto
  from e [of 0] have "spans ! 0 = \<lparr>span_text = ''a'', font_size = Fin 40, bold = True, span_color = ''#4f46e5''\<rparr>"
    by (simp add: term_of_def colors_def)
  moreover from e [of 1] have "spans ! 1 = \<lparr>span_text = ''b'', font_size = Fin 27, bold = False, span_color = ''#10b981''\<rparr>"
    by (simp add: term_of_def colors_def)
  ultimately have "spans = [\<lparr>span_text = ''a'', font_size = Fin 40, bold = True, span_color = ''#4f46e5''\<rparr>,
      \<lparr>span_text = ''b'', font_size = Fin 27, bold = False, span_color = ''#10b981''\<rparr>]"
    using two [OF l] by simp
  with r show ?thesis by (simp add: set_slot_def)
qed

subsection \<open>Exceptions in the dispatcher\<close>

lemma run_steps_Nil_fun: "run_steps [] d = Normal"
  by (rule ext) simp

lemma run_steps_Cons_fun:
  "run_steps (Y # Ys) d = (\<lambda>s. and_then (slot_step Y d s) (run_steps Ys d))"
  by (rule ext) simp

lemma and_then_assoc: "and_then (and_then x f) g = and_then x (\<lambda>s. and_then (f s) g)"
  by (cases x) simp_all

lemma and_then_Normal: "and_then x Normal = x"
  by (cases x) simp_all

lemma try_body_run_steps: "try_body d s = run_steps slot_sequence d s"
  by (simp add: try_body_def slot_sequence_def run_steps_Nil_fun run_steps_Cons_fun
      and_then_assoc and_then_Normal)


lemmas slot_defs =
  hourly_slot_def contact_slot_def word_cloud_slot_def metrics_slot_def heatmap_slot_def
  createHourlyActivityChart_def createContactBubbleChart_def createWordCloudVisualization_def
  createEmailMetricsRadarChart_def createActivityHeatmap_def
  showNoDataMessage_def notice_in_parent_def notice_in_self_def draw_def set_slot_def Let_def

lemma slot_step_frame:
  "sid \<noteq> Y \<Longrightarrow> slots (page_of (slot_step Y d s)) sid = slots s sid"
  by (cases Y) (auto simp: slot_defs split: option.splits list.splits sum.splits)

lemma slot_step_console: "console (page_of (slot_step Y d s)) = console s"
  by (cases Y) (auto simp: slot_defs split: option.splits list.splits sum.splits)

lemma slot_step_atomic: "slot_step Y d s = Throw e s' \<Longrightarrow> s' = s"
  by (cases Y) (auto simp: slot_defs take_Cons' split: option.splits list.splits sum.splits if_splits)

lemma slot_step_local_throw:
  "slots t Y = slots s Y \<Longrightarrow> slot_step Y d s = Throw e s' \<Longrightarrow> slot_step Y d t = Throw e t"
  by (cases Y) (auto simp: slot_defs take_Cons' split: option.splits list.splits sum.splits if_splits)

lemma slot_step_local_normal:
  "slots t Y = slots s Y \<Longrightarrow> slot_step Y d s = Normal s' \<Longrightarrow>
     \<exists>t'. slot_step Y d t = Normal t' \<and> slots t' Y = slots s' Y"
  by (cases Y) (auto simp: slot_defs take_Cons' split: option.splits list.splits sum.splits if_splits)


lemma run_steps_first_throw:
  assumes "distinct (Ys @ [X])"
    and "\<forall>Y\<in>set Ys. \<not> throws (slot_step Y d s)"
    and "slot_step X d s = Throw e s'"
    and "\<forall>Y\<in>set (Ys @ [X]). slots t Y = slots s Y"
  shows "\<exists>t'. run_steps (Ys @ X # Zs) d t = Throw e t'
           \<and> console t' = console t
           \<and> (\<forall>Y\<in>set Ys. slots t' Y = slots (page_of (slot_step Y d s)) Y)
           \<and> (\<forall>Z. Z \<notin> set Ys \<longrightarrow> slots t' Z = slots t Z)"
  using assms(1,2,4)
proof (induction Ys arbitrary: t)
  case Nil
  then have "slots t X = slots s X" by simp
  from slot_step_local_throw [OF this assms(3)] show ?case by simp
next
  case (Cons Y Ys)
  from Cons.prems have agree: "slots t Y = slots s Y" by simp
  from Cons.prems obtain s1 where s1: "slot_step Y d s = Normal s1"
    by (cases "slot_step Y d s") auto
  from slot_step_local_normal [OF agree s1] obtain t1 where
    t1: "slot_step Y d t = Normal t1" "slots t1 Y = slots s1 Y" by blast
  have frame: "slots t1 Z = slots t Z" if "Z \<noteq> Y" for Z
    using slot_step_frame [OF that, of d t] t1(1) by simp
  have cons: "console t1 = console t"
    using slot_step_console [of Y d t] t1(1) by simp
  have "\<forall>Y'\<in>set (Ys @ [X]). slots t1 Y' = slots s Y'"
  proof
    fix Y' assume m: "Y' \<in> set (Ys @ [X])"
    with Cons.prems(1) have "Y' \<noteq> Y" by auto
    with frame have "slots t1 Y' = slots t Y'" by simp
    moreover from m Cons.prems(3) have "slots t Y' = slots s Y'" by auto
    ultimately show "slots t1 Y' = slots s Y'" by simp
  qed
  moreover from Cons.prems have "distinct (Ys @ [X])" "\<forall>Y\<in>set Ys. \<not> throws (slot_step Y d s)"
    by simp_all
  ultimately obtain t' where t': "run_steps (Ys @ X # Zs) d t1 = Throw e t'"
    "console t' = console t1"
    "\<forall>Y\<in>set Ys. slots t' Y = slots (page_of (slot_step Y d s)) Y"
    "\<forall>Z. Z \<notin> set Ys \<longrightarrow> slots t' Z = slots t1 Z"
    using Cons.IH [of t1] by blast
  have run: "run_steps ((Y # Ys) @ X # Zs) d t = Throw e t'"
    using t1(1) t'(1) by simp
  from Cons.prems(1) have notin: "Y \<notin> set Ys" by simp
  have here: "slots t' Y = slots (page_of (slot_step Y d s)) Y"
    using t'(4) notin t1(2) s1 by simp
  have rest: "\<forall>Z. Z \<notin> set (Y # Ys) \<longrightarrow> slots t' Z = slots t Z"
    using t'(4) frame by simp
  from run t'(2) cons here t'(3) rest show ?case by simp
qed

lemma initializeAdvancedCharts_returns: "\<exists>r. initializeAdvancedCharts p t = Normal r"
  by (simp add: initializeAdvancedCharts_def split: option.splits outcome.splits)

lemma distinct_slot_sequence: "distinct slot_sequence"
  by (simp add: slot_sequence_def)

text \<open>
  C2, as the code has it. The dispatcher always returns normally: an exception of the
  \<^verbatim>\<open>try\<close> block is caught and logged. If the statement of slot \<open>X\<close> throws and those of
  the slots \<open>Ys\<close> before it complete, then the console gains the start message and the caught
  error, each slot before \<open>X\<close> holds what its own statement rendered, and every slot after
  \<open>X\<close> is exactly as it was before the call: the slots after \<open>X\<close> are skipped. Nothing
  is said of what the throwing slot itself shows.
\<close>

theorem render_exception_is_caught:
  assumes "slot_sequence = Ys @ X # Zs"
    and "\<forall>Y\<in>set Ys. \<not> throws (slot_step Y d s)"
    and "slot_step X d s = Throw e s'"
  shows "(\<forall>p t. \<exists>r. initializeAdvancedCharts p t = Normal r)
     \<and> (\<exists>r. initializeAdvancedCharts (Some d) s = Normal r
           \<and> console r = console s @ [LogInit, ErrorCaught e]
           \<and> (\<forall>Y\<in>set Ys. slots r Y = slots (page_of (slot_step Y d s)) Y)
           \<and> (\<forall>Z\<in>set Zs. slots r Z = slots s Z))"
proof -
  let ?s0 = "console_write LogInit s"
  have d: "distinct (Ys @ [X])" "set Zs \<inter> set Ys = {}"
    using distinct_slot_sequence unfolding assms(1) by auto
  have "\<forall>Y\<in>set (Ys @ [X]). slots ?s0 Y = slots s Y" by (simp add: console_write_def)
  from run_steps_first_throw [OF d(1) assms(2,3) this, of Zs] obtain t' where
    t': "run_steps slot_sequence d ?s0 = Throw e t'" "console t' = console ?s0"
    "\<forall>Y\<in>set Ys. slots t' Y = slots (page_of (slot_step Y d s)) Y"
    "\<forall>Z. Z \<notin> set Ys \<longrightarrow> slots t' Z = slots ?s0 Z"
    unfolding assms(1) by blast
  let ?r = "console_write (ErrorCaught e) t'"
  have r: "initializeAdvancedCharts (Some d) s = Normal ?r"
    by (simp add: initializeAdvancedCharts_def try_body_run_steps t'(1))
  have c: "console ?r = console s @ [LogInit, ErrorCaught e]"
    using t'(2) by (simp add: console_write_def)
  have before: "\<forall>Y\<in>set Ys. slots ?r Y = slots (page_of (slot_step Y d s)) Y"
    using t'(3) by (simp add: console_write_def)
  have after: "\<forall>Z\<in>set Zs. slots ?r Z = slots s Z"
  proof
    fix Z assume "Z \<in> set Zs"
    with d(2) have "Z \<notin> set Ys" by auto
    with t'(4) show "slots ?r Z = slots s Z" by (simp add: console_write_def)
  qed
  from r c before after initializeAdvancedCharts_returns show ?thesis by blast
qed


text \<open>
  A contact record without a label on a blank page: the hourly bars are drawn, the error
  is logged, and the three slots after the contacts stay blank.
\<close>

theorem render_exception_is_caught_witness:
  "initializeAdvancedCharts (Some unlabelled_payload) blank_page
     = Normal (page_of (initializeAdvancedCharts (Some unlabelled_payload) blank_page))
   \<and> console (page_of (initializeAdvancedCharts (Some unlabelled_payload) blank_page))
     = [LogInit, ErrorCaught TypeError]
   \<and> slots (page_of (initializeAdvancedCharts (Some unlabelled_payload) blank_page))
       hourlyActivityChart = \<lparr>present = True, shown = Drawn (Bar [''09:00''] [3])\<rparr>
   \<and> slots (page_of (initializeAdvancedCharts (Some unlabelled_payload) blank_page))
       subjectWordCloudContainer = \<lparr>present = True, shown = Blank\<rparr>
   \<and> slots (page_of (initializeAdvancedCharts (Some unlabelled_payload) blank_page))
       emailMetricsChart = \<lparr>present = True, shown = Blank\<rparr>
   \<and> slots (page_of (initializeAdvancedCharts (Some unlabelled_payload) blank_page))
       activityHeatmapChart = \<lparr>present = True, shown = Blank\<rparr>"
proof -
  have h1: "slot_sequence = [hourlyActivityChart] @ contactBubbleChart #
      [subjectWordCloudContainer, emailMetricsChart, activityHeatmapChart]"
    by (simp add: slot_sequence_def)
  have hourly: "slot_step hourlyActivityChart unlabelled_payload blank_page
      = Normal (draw hourlyActivityChart (Bar [''09:00''] [3]) blank_page)"
    by (simp add: hourly_slot_def createHourlyActivityChart_def createBarChart_def
        unlabelled_payload_def blank_page_def)
  then have h2: "\<forall>Y\<in>set [hourlyActivityChart]. \<not> throws (slot_step Y unlabelled_payload blank_page)"
    by simp
  have h3: "slot_step contactBubbleChart unlabelled_payload blank_page = Throw TypeError blank_page"
    by (simp add: contact_slot_def createContactBubbleChart_def hasEnoughData_def
        truncate_label_def unlabelled_payload_def blank_page_def)
  from render_exception_is_caught [OF h1 h2 h3] obtain r where
    r: "initializeAdvancedCharts (Some unlabelled_payload) blank_page = Normal r"
    "console r = console blank_page @ [LogInit, ErrorCaught TypeError]"
    "\<forall>Y\<in>set [hourlyActivityChart].
        slots r Y = slots (page_of (slot_step Y unlabelled_payload blank_page)) Y"
    "\<forall>Z\<in>set [subjectWordCloudContainer, emailMetricsChart, activityHeatmapChart].
        slots r Z = slots blank_page Z"
    by auto
  from r(3) hourly have a: "slots r hourlyActivityChart
      = \<lparr>present = True, shown = Drawn (Bar [''09:00''] [3])\<rparr>"
    by (simp add: draw_def set_slot_def)
  from r(4) have b: "slots r subjectWordCloudContainer = \<lparr>present = True, shown = Blank\<rparr>"
    "slots r emailMetricsChart = \<lparr>present = True, shown = Blank\<rparr>"
    "slots r activityHeatmapChart = \<lparr>present = True, shown = Blank\<rparr>"
    by (simp_all add: blank_page_def)
  from r(2) have c: "console r = [LogInit, ErrorCaught TypeError]"
    by (simp add: blank_page_def)
  from r(1) a b c show ?thesis by simp
qed


text \<open>
  C2 as stated also has the remaining slots unaffected by the exception. They are not:
  with the same payload, the word-cloud statement on its own renders the term \<open>a\<close>, but
  after the contact statement has thrown the word-cloud slot is left blank.
\<close>

theorem remaining_slots_unaffected_counterexample:
  "slot_step contactBubbleChart unlabelled_payload blank_page = Throw TypeError blank_page
   \<and> shown (slots (page_of (slot_step subjectWordCloudContainer unlabelled_payload blank_page))
        subjectWordCloudContainer)
     = WordCloud [\<lparr>span_text = ''a'', font_size = Fin 40, bold = True, span_color = ''#4f46e5''\<rparr>]
   \<and> shown (slots (page_of (initializeAdvancedCharts (Some unlabelled_payload) blank_page))
        subjectWordCloudContainer) = Blank
   \<and> shown (slots (page_of (initializeAdvancedCharts (Some unlabelled_payload) blank_page))
        subjectWordCloudContainer)
     \<noteq> shown (slots (page_of (slot_step subjectWordCloudContainer unlabelled_payload blank_page))
        subjectWordCloudContainer)"
proof -
  have a: "slot_step contactBubbleChart unlabelled_payload blank_page = Throw TypeError blank_page"
    by (simp add: contact_slot_def createContactBubbleChart_def hasEnoughData_def
        truncate_label_def unlabelled_payload_def blank_page_def)
  have b: "shown (slots (page_of (slot_step subjectWordCloudContainer unlabelled_payload blank_page))
        subjectWordCloudContainer)
     = WordCloud [\<lparr>span_text = ''a'', font_size = Fin 40, bold = True, span_color = ''#4f46e5''\<rparr>]"
    by (simp add: word_cloud_slot_def createWordCloudVisualization_def word_span_def
        js_div_def colors_def term_of_def set_slot_def unlabelled_payload_def blank_page_def)
  have h: "hourly_slot unlabelled_payload (console_write LogInit blank_page)
      = Normal (draw hourlyActivityChart (Bar [''09:00''] [3]) (console_write LogInit blank_page))"
    by (simp add: hourly_slot_def createHourlyActivityChart_def createBarChart_def
        unlabelled_payload_def blank_page_def console_write_def)
  have c: "contact_slot unlabelled_payload
        (draw hourlyActivityChart (Bar [''09:00''] [3]) (console_write LogInit blank_page))
      = Throw TypeError
          (draw hourlyActivityChart (Bar [''09:00''] [3]) (console_write LogInit blank_page))"
    by (simp add: contact_slot_def createContactBubbleChart_def hasEnoughData_def
        truncate_label_def unlabelled_payload_def blank_page_def console_write_def
        draw_def set_slot_def)
  have "shown (slots (page_of (initializeAdvancedCharts (Some unlabelled_payload) blank_page))
        subjectWordCloudContainer) = Blank"
    by (simp add: initializeAdvancedCharts_def try_body_def h c)
       (simp add: console_write_def draw_def set_slot_def blank_page_def)
  with a b show ?thesis by simp
qed

end
